theory Spec2Isabelle
  imports Complex_Main "HOL-Library.Char_ord" "HOL-Library.List_Lexorder" "HOL-Library.Word"
begin

section \<open>The RINEX printer of GNSS-SDR: numbers and exceptions\<close>

text \<open>
  The embedding follows \<^verbatim>\<open>src/algorithms/PVT/libs/rinex_printer.cc\<close>.
  A C++ \<^verbatim>\<open>double\<close> is modelled by a real number (the finite values of a double
  are reals; comparisons with integer constants, \<^verbatim>\<open>floor\<close> and \<^verbatim>\<open>fmod\<close> are exact
  on them). A C++ \<^verbatim>\<open>int\<close> is a 32-bit two's complement integer: it is modelled by a
  HOL integer together with the range check, and an operation that leaves the range is
  undefined behaviour in C++, which the model returns as \<open>None\<close>.
\<close>

definition INT_MIN :: int where
  "INT_MIN = - (2 ^ 31)"

definition INT_MAX :: int where
  "INT_MAX = 2 ^ 31 - 1"

definition in_int_range :: "int \<Rightarrow> bool" where
  "in_int_range i = (INT_MIN \<le> i \<and> i \<le> INT_MAX)"

text \<open>The conversion \<^verbatim>\<open>int(x)\<close> of a double: the value is truncated towards zero, and
  the behaviour is undefined when the truncated value does not fit an \<^verbatim>\<open>int\<close>.\<close>

definition truncate_real :: "real \<Rightarrow> int" where
  "truncate_real x = (if 0 \<le> x then \<lfloor>x\<rfloor> else \<lceil>x\<rceil>)"

definition double_to_int :: "real \<Rightarrow> int option" where
  "double_to_int x =
     (let t = truncate_real x in if in_int_range t then Some t else None)"

text \<open>\<^verbatim>\<open>floor\<close> of \<^verbatim>\<open><cmath>\<close> returns a double.\<close>

definition floor_double :: "real \<Rightarrow> real" where
  "floor_double x = of_int \<lfloor>x\<rfloor>"

subsection \<open>Signal strength (rinex_printer.cc, lines 1502-1507)\<close>

text \<open>
  \<^verbatim>\<open>ss = int ( std::min( std::max( int (floor(snr/6)) , 1), 9) );\<close>
\<close>

definition signalStrength :: "real \<Rightarrow> int option" where
  "signalStrength snr =
     (case double_to_int (floor_double (snr / 6)) of
        None \<Rightarrow> None
      | Some i \<Rightarrow> Some (min (max i 1) 9))"

subsection \<open>Curve fit interval (rinex_printer.cc, lines 874-896)\<close>

text \<open>
  \<^verbatim>\<open>satelliteBlock\<close> is a \<^verbatim>\<open>std::map<int, std::string>\<close>; \<^verbatim>\<open>operator[]\<close> yields the
  empty string for a key that is absent. \<^verbatim>\<open>std::string::compare\<close> returns 0 when the
  strings are equal, a negative number when the first one is smaller in the
  lexicographic order of the characters and a positive number otherwise; a condition
  \<^verbatim>\<open>if (s.compare(t))\<close> holds when the result is not 0.
\<close>

definition map_index :: "('k \<rightharpoonup> string) \<Rightarrow> 'k \<Rightarrow> string" where
  "map_index m k = (case m k of None \<Rightarrow> [] | Some s \<Rightarrow> s)"

definition compare :: "string \<Rightarrow> string \<Rightarrow> int" where
  "compare s t = (if s = t then 0 else if s < t then - 1 else 1)"

definition curve_fit_interval :: "string \<Rightarrow> real \<Rightarrow> real" where
  "curve_fit_interval block iodc =
     (let c0 = 4;
          c1 = (if compare block ''IIA'' \<noteq> 0 then
                  (let a1 = (if 239 < iodc \<and> iodc < 248 then 8 else c0);
                       a2 = (if (247 < iodc \<and> iodc < 256) \<or> iodc = 496 then 14 else a1);
                       a3 = (if 496 < iodc \<and> iodc < 504 then 26 else a2);
                       a4 = (if 503 < iodc \<and> iodc < 511 then 50 else a3);
                       a5 = (if (751 < iodc \<and> iodc < 757) \<or> iodc = 511 then 74 else a4);
                       a6 = (if iodc = 757 then 98 else a5)
                   in a6)
                else c0);
          c2 = (if compare block ''IIR'' = 0 \<or> compare block ''IIR-M'' = 0 \<or>
                   compare block ''IIF'' = 0 \<or> compare block ''IIIA'' = 0 then
                  (let b1 = (if 239 < iodc \<and> iodc < 248 then 8 else c1);
                       b2 = (if (247 < iodc \<and> iodc < 256) \<or> iodc = 496 then 14 else b1);
                       b3 = (if (496 < iodc \<and> iodc < 504) \<or> (1020 < iodc \<and> iodc < 1024)
                             then 26 else b2)
                   in b3)
                else c1)
      in c2)"

section \<open>Strings, exceptions and the output stream\<close>

text \<open>
  The exceptions of the C++ standard library that the printer can raise:
  \<^verbatim>\<open>std::length_error\<close> (a string longer than \<^verbatim>\<open>max_size()\<close> is requested) and
  \<^verbatim>\<open>std::out_of_range\<close> (a substring starts behind the end of its string).
  \<open>undefined_behaviour\<close> stands for undefined behaviour inside a writer (signed
  overflow, a conversion out of range, a read behind the end of an array).
\<close>

datatype exn = length_error | out_of_range | undefined_behaviour

definition try_then :: "exn + 'a \<Rightarrow> ('a \<Rightarrow> exn + 'b) \<Rightarrow> exn + 'b" where
  "try_then r f = (case r of Inl e \<Rightarrow> Inl e | Inr v \<Rightarrow> f v)"

text \<open>\<^verbatim>\<open>std::string(s, pos, n)\<close> and \<^verbatim>\<open>s.substr(pos, n)\<close>: at most \<open>n\<close> characters
  from position \<open>pos\<close>; \<^verbatim>\<open>std::out_of_range\<close> when \<open>pos\<close> is greater than the size.\<close>

definition substr :: "string \<Rightarrow> nat \<Rightarrow> nat \<Rightarrow> exn + string" where
  "substr s pos n = (if length s < pos then Inl out_of_range else Inr (take n (drop pos s)))"

text \<open>
  \<^verbatim>\<open>std::string(n, ' ')\<close> where \<open>n\<close> is the \<^verbatim>\<open>size_t\<close> difference \<open>w - line.size()\<close>:
  the subtraction wraps around modulo \<open>2 ^ 64\<close>, and the constructor throws
  \<^verbatim>\<open>std::length_error\<close> when \<open>n\<close> exceeds \<^verbatim>\<open>max_size()\<close>, which is below \<open>2 ^ 63\<close> in
  the implementations of the standard library.
\<close>

definition size_t_minus :: "nat \<Rightarrow> nat \<Rightarrow> nat" where
  "size_t_minus a b = nat ((int a - int b) mod 2 ^ 64)"

definition string_max_size :: nat where
  "string_max_size = 2 ^ 63 - 1"

definition spaces :: "nat \<Rightarrow> exn + string" where
  "spaces n = (if string_max_size < n then Inl length_error else Inr (replicate n CHR '' ''))"

text \<open>\<^verbatim>\<open>line += std::string(w - line.size(), ' ')\<close>\<close>

definition pad_to :: "nat \<Rightarrow> string \<Rightarrow> exn + string" where
  "pad_to w line = try_then (spaces (size_t_minus w (length line))) (\<lambda>p. Inr (line @ p))"

text \<open>\<^verbatim>\<open>if (lineObs.size() < 80) lineObs += std::string(80 - lineObs.size(), ' ')\<close>\<close>

definition pad_if_shorter :: "nat \<Rightarrow> string \<Rightarrow> exn + string" where
  "pad_if_shorter w line = (if length line < w then pad_to w line else Inr line)"

text \<open>\<^verbatim>\<open>boost::lexical_cast<std::string>\<close> of an integer, and the insertion of an
  integer into a stream: the decimal digits, after a minus sign when negative.\<close>

fun digits :: "nat \<Rightarrow> string" where
  "digits n = (if n < 10 then [''0123456789'' ! n]
               else digits (n div 10) @ [''0123456789'' ! (n mod 10)])"

declare digits.simps [simp del]

definition lexical_cast_int :: "int \<Rightarrow> string" where
  "lexical_cast_int i = (if i < 0 then CHR ''-'' # digits (nat (- i)) else digits (nat i))"

text \<open>
  Modelled from the spec: \<^verbatim>\<open>leftJustify\<close> and \<^verbatim>\<open>rightJustify\<close> are defined in
  \<^verbatim>\<open>rinex_printer.h\<close>, which is not among the sources. The spec: both pad with spaces
  and never truncate; if the input exceeds the width, the original text is returned.
\<close>

definition leftJustify :: "string \<Rightarrow> nat \<Rightarrow> string" where
  "leftJustify s w = (if w < length s then s else s @ replicate (w - length s) CHR '' '')"

definition rightJustify :: "string \<Rightarrow> nat \<Rightarrow> string" where
  "rightJustify s w = (if w < length s then s else replicate (w - length s) CHR '' '' @ s)"

text \<open>
  The renderers of floating point numbers and of time stamps are not among the sources
  either (\<^verbatim>\<open>doub2for\<close>, \<^verbatim>\<open>asString\<close> and \<^verbatim>\<open>asFixWidthString\<close> are defined in
  \<^verbatim>\<open>rinex_printer.h\<close>, \<^verbatim>\<open>lexical_cast\<close> and \<^verbatim>\<open>to_iso_string\<close> belong to Boost): they
  are parameters of the model. \<open>to_iso_string x\<close> is the ISO string of the \<^verbatim>\<open>ptime\<close>
  built from the date 1999-08-22 and the duration \<^verbatim>\<open>millisec(x)\<close>.
\<close>

record helpers =
  doub2for :: "real \<Rightarrow> nat \<Rightarrow> nat \<Rightarrow> string"
  asString :: "real \<Rightarrow> nat \<Rightarrow> string"
  lexical_cast_double :: "real \<Rightarrow> string"
  to_iso_string :: "real \<Rightarrow> string"
  asFixWidthString :: "int \<Rightarrow> nat \<Rightarrow> char \<Rightarrow> string"

subsection \<open>The stream and the log\<close>

text \<open>
  \<^verbatim>\<open>lengthCheck\<close> (lines 195-204) writes a diagnostic to the log when the line does
  not have 80 characters; it neither throws nor changes the line. The diagnostic is
  represented by the line it reports.
\<close>

definition lengthCheck :: "string \<Rightarrow> string list" where
  "lengthCheck line = (if length line \<noteq> 80 then [line] else [])"

text \<open>
  A writer is a sequence of actions in program order. \<open>Write_checked l\<close> is
  \<^verbatim>\<open>lengthCheck(line); out << line << std::endl;\<close>, \<open>Write_unchecked l\<close> is
  \<^verbatim>\<open>out << line << std::endl;\<close> alone, and \<open>Throw e\<close> is an exception that leaves
  the writer: nothing behind it happens.
\<close>

datatype action = Throw exn | Write_checked string | Write_unchecked string

record outcome =
  written :: "string list"
  logged :: "string list"
  thrown :: "exn option"

fun run :: "action list \<Rightarrow> outcome" where
  "run [] = \<lparr>written = [], logged = [], thrown = None\<rparr>"
| "run (Throw e # rest) = \<lparr>written = [], logged = [], thrown = Some e\<rparr>"
| "run (Write_checked l # rest) =
     (let r = run rest in r\<lparr>written := l # written r, logged := lengthCheck l @ logged r\<rparr>)"
| "run (Write_unchecked l # rest) =
     (let r = run rest in r\<lparr>written := l # written r\<rparr>)"

definition checked_line :: "exn + string \<Rightarrow> action" where
  "checked_line r = (case r of Inl e \<Rightarrow> Throw e | Inr l \<Rightarrow> Write_checked l)"

definition plain_line :: "exn + string \<Rightarrow> action" where
  "plain_line r = (case r of Inl e \<Rightarrow> Throw e | Inr l \<Rightarrow> Write_unchecked l)"

section \<open>The code tables (rinex_printer.cc, lines 66-140)\<close>

text \<open>
  The constructor fills the three tables by assignments \<^verbatim>\<open>table["key"] = "code"\<close>, in
  the order listed; a later assignment to the same key replaces the earlier one, so a
  key is looked up from the last assignment backwards.
\<close>

definition satelliteSystem :: "string \<rightharpoonup> string" where
  "satelliteSystem = map_of (rev
     [(''GPS'', ''G''),
      (''GLONASS'', ''R''),
      (''SBAS payload'', ''S''),
      (''Galileo'', ''E''),
      (''Compass'', ''C'')])"

definition observationCode :: "string \<rightharpoonup> string" where
  "observationCode = map_of (rev
     [(''GPS_L1_CA'', ''1C''),
      (''GPS_L1_P'', ''1P''),
      (''GPS_L1_Z_TRACKING'', ''1W''),
      (''GPS_L1_Y'', ''1Y''),
      (''GPS_L1_M '', ''1M''),
      (''GPS_L1_CODELESS'', ''1N''),
      (''GPS_L2_CA'', ''2C''),
      (''L2_SEMI_CODELESS'', ''2D''),
      (''GPS_L2_L2CM'', ''2S''),
      (''GPS_L2_L2CL'', ''2L''),
      (''GPS_L2_L2CML'', ''2X''),
      (''GPS_L2_P'', ''2P''),
      (''GPS_L2_Z_TRACKING'', ''2W''),
      (''GPS_L2_Y'', ''2Y''),
      (''GPS_L2_M'', ''2M''),
      (''GPS_L2_codeless'', ''2N''),
      (''GPS_L5_I'', ''5I''),
      (''GPS_L5_Q'', ''5Q''),
      (''GPS_L5_IQ'', ''5X''),
      (''GLONASS_G1_CA'', ''1C''),
      (''GLONASS_G1_P'', ''1P''),
      (''GLONASS_G2_CA'', ''2C''),
      (''GLONASS_G2_P'', ''2P''),
      (''GALILEO_E1_A'', ''1A''),
      (''GALILEO_E1_B'', ''1B''),
      (''GALILEO_E1_C'', ''1C''),
      (''GALILEO_E1_BC'', ''1X''),
      (''GALILEO_E1_ABC'', ''1Z''),
      (''GALILEO_E5a_I'', ''5I''),
      (''GALILEO_E5a_Q'', ''5Q''),
      (''GALILEO_E5aIQ'', ''5X''),
      (''GALILEO_E5b_I'', ''7I''),
      (''GALILEO_E5b_Q'', ''7Q''),
      (''GALILEO_E5b_IQ'', ''7X''),
      (''GALILEO_E5_I'', ''8I''),
      (''GALILEO_E5_Q'', ''8Q''),
      (''GALILEO_E5_IQ'', ''8X''),
      (''GALILEO_E56_A'', ''6A''),
      (''GALILEO_E56_B'', ''6B''),
      (''GALILEO_E56_B'', ''6C''),
      (''GALILEO_E56_BC'', ''6X''),
      (''GALILEO_E56_ABC'', ''6Z''),
      (''SBAS_L1_CA'', ''1C''),
      (''SBAS_L5_I'', ''5I''),
      (''SBAS_L5_Q'', ''5Q''),
      (''SBAS_L5_IQ'', ''5X''),
      (''COMPASS_E2_I'', ''2I''),
      (''COMPASS_E2_Q'', ''2Q''),
      (''COMPASS_E2_IQ'', ''2X''),
      (''COMPASS_E5b_I'', ''7I''),
      (''COMPASS_E5b_Q'', ''7Q''),
      (''COMPASS_E5b_IQ'', ''7X''),
      (''COMPASS_E6_I'', ''6I''),
      (''COMPASS_E6_Q'', ''6Q''),
      (''COMPASS_E6_IQ'', ''6X''),
      (''GPS_L1_CA_v2'', ''1'')])"

definition observationType :: "string \<rightharpoonup> string" where
  "observationType = map_of (rev
     [(''PSEUDORANGE'', ''C''),
      (''CARRIER_PHASE'', ''L''),
      (''DOPPLER'', ''D''),
      (''SIGNAL_STRENGTH'', ''S''),
      (''PSEUDORANGE_CA_v2'', ''C''),
      (''PSEUDORANGE_P_v2'', ''P''),
      (''CARRIER_PHASE_CA_v2'', ''L''),
      (''DOPPLER_v2'', ''D''),
      (''SIGNAL_STRENGTH_v2'', ''S'')])"

section \<open>Navigation records (rinex_printer.cc, lines 618-910)\<close>

text \<open>The fields of \<^verbatim>\<open>Gps_Ephemeris\<close> that the printer reads.\<close>

record Gps_Ephemeris =
  i_satellite_PRN :: int
  d_TOW :: real
  i_GPS_week :: int
  d_A_f0 :: real
  d_A_f1 :: real
  d_A_f2 :: real
  d_Crs :: real
  d_Delta_n :: real
  d_M_0 :: real
  d_Cuc :: real
  d_e_eccentricity :: real
  d_Cus :: real
  d_sqrt_A :: real
  d_Toe :: real
  d_Cic :: real
  d_OMEGA0 :: real
  d_Cis :: real
  d_i_0 :: real
  d_Crc :: real
  d_OMEGA :: real
  d_OMEGA_DOT :: real
  d_IDOT :: real
  i_code_on_L2 :: int
  i_SV_accuracy :: int
  i_SV_health :: int
  d_TGD :: real
  d_IODC :: real
  satelliteBlock :: "int \<rightharpoonup> string"

text \<open>The quotient \<^verbatim>\<open>a / b\<close> of C++ integers truncates towards zero, and the
  remainder \<^verbatim>\<open>a % b\<close> has the sign of \<open>a\<close>.\<close>

definition c_div :: "int \<Rightarrow> int \<Rightarrow> int" where
  "c_div a b = sgn a * sgn b * (\<bar>a\<bar> div \<bar>b\<bar>)"

definition c_mod :: "int \<Rightarrow> int \<Rightarrow> int" where
  "c_mod a b = a - b * c_div a b"

text \<open>\<^verbatim>\<open>compute_GPS_time\<close> (lines 1520-1530): the argument of \<^verbatim>\<open>millisec\<close>.\<close>

definition compute_GPS_time :: "Gps_Ephemeris \<Rightarrow> real \<Rightarrow> real" where
  "compute_GPS_time eph obs_time =
     (let gps_t = obs_time
      in (gps_t + 604800 * of_int (c_mod (i_GPS_week eph) 1024)) * 1000)"

definition sp :: string where
  "sp = [CHR '' '']"

text \<open>The digit after the decimal point of the seconds (lines 652-657): the string
  declared inside the \<^verbatim>\<open>if\<close> is a new local variable, which the line does not use.\<close>

definition nav_decimal :: "string \<Rightarrow> string" where
  "nav_decimal timestring =
     (let decimal = ''0'';
          inner_decimal = (if 16 < length timestring then take 1 (drop 16 timestring) else [])
      in decimal)"

text \<open>SV / EPOCH / SV CLK (lines 628-692).\<close>

definition nav_clock_line :: "helpers \<Rightarrow> int \<Rightarrow> Gps_Ephemeris \<Rightarrow> exn + string" where
  "nav_clock_line H version eph =
     (let timestring = to_iso_string H (compute_GPS_time eph (d_TOW eph)) in
      try_then (substr timestring 4 2) (\<lambda>month.
      try_then (substr timestring 6 2) (\<lambda>day.
      try_then (substr timestring 9 2) (\<lambda>hour.
      try_then (substr timestring 11 2) (\<lambda>minutes.
      try_then (substr timestring 13 2) (\<lambda>seconds.
      try_then
        (if version = 2 then
           try_then (substr timestring 2 2) (\<lambda>year. Inr (
             rightJustify (lexical_cast_int (i_satellite_PRN eph)) 2 @ sp @
             year @ sp @ month @ sp @ day @ sp @ hour @ sp @ minutes @ sp @
             seconds @ ''.'' @ nav_decimal timestring @ sp @
             doub2for H (d_A_f0 eph) 18 2 @ sp @
             doub2for H (d_A_f1 eph) 18 2 @ sp @
             doub2for H (d_A_f2 eph) 18 2 @ sp))
         else Inr []) (\<lambda>line.
      if version = 3 then
        try_then (substr timestring 0 4) (\<lambda>year. Inr (
          line @ map_index satelliteSystem ''GPS'' @
          (if i_satellite_PRN eph < 10 then ''0'' else []) @
          lexical_cast_int (i_satellite_PRN eph) @ sp @
          year @ sp @ month @ sp @ day @ sp @ hour @ sp @ minutes @ sp @
          seconds @ sp @
          doub2for H (d_A_f0 eph) 18 2 @ sp @
          doub2for H (d_A_f1 eph) 18 2 @ sp @
          doub2for H (d_A_f2 eph) 18 2))
      else Inr line)))))))"

text \<open>A broadcast orbit line: the leading spaces of the version, four fields
  separated by a space, and the space that version 2 appends.\<close>

definition broadcast_orbit :: "int \<Rightarrow> string \<Rightarrow> string \<Rightarrow> string \<Rightarrow> string \<Rightarrow> string" where
  "broadcast_orbit version f1 f2 f3 f4 =
     (if version = 2 then replicate 4 CHR '' '' else []) @
     (if version = 3 then replicate 5 CHR '' '' else []) @
     f1 @ sp @ f2 @ sp @ f3 @ sp @ f4 @
     (if version = 2 then sp else [])"

text \<open>BROADCAST ORBIT - 1 to 7 (lines 695-907).\<close>

definition nav_orbit_lines :: "helpers \<Rightarrow> int \<Rightarrow> Gps_Ephemeris \<Rightarrow> string list" where
  "nav_orbit_lines H version eph =
     (let d_IODE_SF2 = 0;
          GPS_week_continuous_number = of_int (i_GPS_week eph + 1024);
          curve_fit = curve_fit_interval
            (map_index (satelliteBlock eph) (i_satellite_PRN eph)) (d_IODC eph)
      in
      [broadcast_orbit version
         (doub2for H d_IODE_SF2 18 2) (doub2for H (d_Crs eph) 18 2)
         (doub2for H (d_Delta_n eph) 18 2) (doub2for H (d_M_0 eph) 18 2),
       broadcast_orbit version
         (doub2for H (d_Cuc eph) 18 2) (doub2for H (d_e_eccentricity eph) 18 2)
         (doub2for H (d_Cus eph) 18 2) (doub2for H (d_sqrt_A eph) 18 2),
       broadcast_orbit version
         (doub2for H (d_Toe eph) 18 2) (doub2for H (d_Cic eph) 18 2)
         (doub2for H (d_OMEGA0 eph) 18 2) (doub2for H (d_Cis eph) 18 2),
       broadcast_orbit version
         (doub2for H (d_i_0 eph) 18 2) (doub2for H (d_Crc eph) 18 2)
         (doub2for H (d_OMEGA eph) 18 2) (doub2for H (d_OMEGA_DOT eph) 18 2),
       broadcast_orbit version
         (doub2for H (d_IDOT eph) 18 2) (doub2for H (of_int (i_code_on_L2 eph)) 18 2)
         (doub2for H GPS_week_continuous_number 18 2)
         (doub2for H (of_int (i_code_on_L2 eph)) 18 2),
       broadcast_orbit version
         (doub2for H (of_int (i_SV_accuracy eph)) 18 2)
         (doub2for H (of_int (i_SV_health eph)) 18 2)
         (doub2for H (d_TGD eph) 18 2) (doub2for H (d_IODC eph) 18 2),
       broadcast_orbit version
         (doub2for H (d_TOW eph) 18 2) (doub2for H curve_fit 18 2)
         (replicate 18 CHR '' '') (replicate 18 CHR '' '')])"

definition nav_record :: "helpers \<Rightarrow> int \<Rightarrow> Gps_Ephemeris \<Rightarrow> action list" where
  "nav_record H version eph =
     checked_line (nav_clock_line H version eph) #
     map Write_checked (nav_orbit_lines H version eph)"

text \<open>
  The loop over the ephemeris map (lines 623-909). A std::map is traversed in the
  order of its keys: the map is given by the list of its entries in that order.
\<close>

definition log_rinex_nav :: "helpers \<Rightarrow> int \<Rightarrow> (int \<times> Gps_Ephemeris) list \<Rightarrow> outcome" where
  "log_rinex_nav H version eph_map =
     run (concat (map (\<lambda>(prn, eph). nav_record H version eph) eph_map))"

section \<open>Observation records (rinex_printer.cc, lines 1149-1340)\<close>

text \<open>The fields of \<^verbatim>\<open>Gnss_Synchro\<close> that the printer reads.\<close>

record Gnss_Synchro =
  Pseudorange_m :: real
  Carrier_phase_rads :: real
  Carrier_Doppler_hz :: real
  CN0_dB_hz :: real

text \<open>
  Modelled from the spec: the constant \<^verbatim>\<open>GPS_TWO_PI\<close> is defined in \<^verbatim>\<open>GPS_L1_CA.h\<close>,
  which is not among the sources. The spec: the carrier phase is converted from radians
  to cycles by dividing by \<open>2\<pi>\<close>.
\<close>

definition GPS_TWO_PI :: real where
  "GPS_TWO_PI = 2 * pi"

text \<open>\<^verbatim>\<open>fmod(x, y)\<close>: the remainder of the division that truncates towards zero.\<close>

definition fmod :: "real \<Rightarrow> real \<Rightarrow> real" where
  "fmod x y = x - y * of_int (truncate_real (x / y))"

text \<open>The satellite identifier: the system letter of GPS and the PRN in two digits
  (lines 1215-1217 and 1311-1313).\<close>

definition sat_id :: "int \<Rightarrow> string" where
  "sat_id prn =
     map_index satelliteSystem ''GPS'' @ (if prn < 10 then ''0'' else []) @ lexical_cast_int prn"

text \<open>A month or a day of version 2 (lines 1173-1191): a leading zero becomes a space.\<close>

definition blank_leading_zero :: "string \<Rightarrow> string" where
  "blank_leading_zero field =
     (if compare (take 1 field) ''0'' = 0 then sp @ take 1 (drop 1 field) else field)"

text \<open>The epoch line of version 2 before it is padded (lines 1168-1218).\<close>

definition obs_epoch_content_v2 ::
  "helpers \<Rightarrow> string \<Rightarrow> string \<Rightarrow> string \<Rightarrow> string \<Rightarrow> string \<Rightarrow> real \<Rightarrow>
   (int \<times> Gnss_Synchro) list \<Rightarrow> string" where
  "obs_epoch_content_v2 H year month day hour minutes gps_t pseudoranges =
     (let numSatellitesObserved = int (length pseudoranges)
      in sp @ year @ sp @ blank_leading_zero month @ sp @ blank_leading_zero day @ sp @
         hour @ sp @ minutes @ sp @ asString H (fmod gps_t 60) 7 @
         replicate 2 CHR '' '' @ ''0'' @
         rightJustify (lexical_cast_int numSatellitesObserved) 3 @
         concat (map (\<lambda>(prn, obs). sat_id prn) pseudoranges))"

text \<open>An observation line of version 2 (lines 1230-1255). The loss of lock
  indicator is the constant 0.\<close>

definition obs_line_v2 :: "helpers \<Rightarrow> Gnss_Synchro \<Rightarrow> exn + string" where
  "obs_line_v2 H obs =
     (let lli = (0 :: int);
          lineObs =
            rightJustify (asString H (Pseudorange_m obs) 3) 14 @
            (if lli = 0 then sp else rightJustify (lexical_cast_int lli) 1) @
            rightJustify (asString H (Carrier_phase_rads obs / GPS_TWO_PI) 3) 14 @
            rightJustify (asString H (Carrier_Doppler_hz obs) 3) 14 @
            rightJustify (asString H (CN0_dB_hz obs) 3) 14
      in pad_if_shorter 80 lineObs)"

text \<open>The epoch line of version 3 before it is padded (lines 1261-1295).\<close>

definition obs_epoch_content_v3 ::
  "helpers \<Rightarrow> string \<Rightarrow> string \<Rightarrow> string \<Rightarrow> string \<Rightarrow> string \<Rightarrow> real \<Rightarrow>
   (int \<times> Gnss_Synchro) list \<Rightarrow> string" where
  "obs_epoch_content_v3 H year month day hour minutes gps_t pseudoranges =
     (let seconds = fmod gps_t 60;
          numSatellitesObserved = int (length pseudoranges)
      in ''>'' @ sp @ year @ sp @ month @ sp @ day @ sp @ hour @ sp @ minutes @ sp @
         (if seconds < 10 then ''0'' else []) @ asString H seconds 7 @
         replicate 2 CHR '' '' @ ''0'' @
         rightJustify (lexical_cast_int numSatellitesObserved) 3)"

text \<open>An observation line of version 3 (lines 1309-1337).\<close>

definition obs_line_v3 :: "helpers \<Rightarrow> int \<Rightarrow> Gnss_Synchro \<Rightarrow> exn + string" where
  "obs_line_v3 H prn obs =
     (case signalStrength 54 of
        None \<Rightarrow> Inl undefined_behaviour
      | Some ssi \<Rightarrow>
          (let lli = (0 :: int);
               lineObs =
                 sat_id prn @
                 rightJustify (asString H (Pseudorange_m obs) 3) 14 @
                 (if lli = 0 then sp else rightJustify (lexical_cast_int lli) 1) @
                 (if ssi = 0 then sp else rightJustify (lexical_cast_int ssi) 1)
           in pad_if_shorter 80 lineObs))"

text \<open>
  \<^verbatim>\<open>log_rinex_obs\<close>. The satellites are given in the order of their keys, as the
  iterators visit them.
\<close>

definition log_rinex_obs ::
  "helpers \<Rightarrow> int \<Rightarrow> Gps_Ephemeris \<Rightarrow> real \<Rightarrow> (int \<times> Gnss_Synchro) list \<Rightarrow> outcome" where
  "log_rinex_obs H version eph obs_time pseudoranges =
     (let timestring = to_iso_string H (compute_GPS_time eph obs_time);
          gps_t = obs_time
      in run
        (case try_then (substr timestring 4 2) (\<lambda>month.
              try_then (substr timestring 6 2) (\<lambda>day.
              try_then (substr timestring 9 2) (\<lambda>hour.
              try_then (substr timestring 11 2) (\<lambda>minutes.
              Inr (month, day, hour, minutes))))) of
           Inl e \<Rightarrow> [Throw e]
         | Inr (month, day, hour, minutes) \<Rightarrow>
             (if version = 2 then
                checked_line (try_then (substr timestring 2 2) (\<lambda>year.
                  pad_to 80 (obs_epoch_content_v2 H year month day hour minutes gps_t
                    pseudoranges))) #
                map (\<lambda>(prn, obs). plain_line (obs_line_v2 H obs)) pseudoranges
              else []) @
             (if version = 3 then
                checked_line (try_then (substr timestring 0 4) (\<lambda>year.
                  pad_to 80 (obs_epoch_content_v3 H year month day hour minutes gps_t
                    pseudoranges))) #
                map (\<lambda>(prn, obs). plain_line (obs_line_v3 H prn obs)) pseudoranges
              else [])))"

section \<open>GPS time to calendar (rinex_printer.cc, lines 1344-1413)\<close>

text \<open>The result of an \<^verbatim>\<open>int\<close> operation: undefined when it leaves the range.\<close>

definition checked_int :: "int \<Rightarrow> int option" where
  "checked_int r = (if in_int_range r then Some r else None)"

definition days_per_month :: "int list" where
  "days_per_month = [31, 28, 31, 30, 31, 30, 31, 31, 30, 31, 30, 31]"

definition secs_per_day :: int where
  "secs_per_day = 24 * 60 * 60"

definition secs_per_week :: int where
  "secs_per_week = 7 * secs_per_day"

definition secs_per_normal_year :: int where
  "secs_per_normal_year = 365 * secs_per_day"

definition secs_per_leap_year :: int where
  "secs_per_leap_year = secs_per_normal_year + secs_per_day"

text \<open>The loop that finds the year (lines 1365-1381); it returns the year, the leap
  year flag and the remaining seconds.\<close>

function find_year :: "int \<Rightarrow> int \<Rightarrow> int \<times> bool \<times> int" where
  "find_year y remaining_secs =
     (let is_leap_year = (y mod 4 = 0 \<and> (y mod 100 \<noteq> 0 \<or> y mod 400 = 0));
          secs_in_year_y = (if is_leap_year then secs_per_leap_year else secs_per_normal_year)
      in if secs_in_year_y \<le> remaining_secs
         then find_year (y + 1) (remaining_secs - secs_in_year_y)
         else (y, is_leap_year, remaining_secs))"
  by pat_completeness auto
termination
  by (relation "measure (\<lambda>(y, remaining_secs). nat remaining_secs)")
     (auto simp: secs_per_leap_year_def secs_per_normal_year_def secs_per_day_def
       split: if_splits)

text \<open>The loop that finds the month (lines 1384-1403); a month beyond 12 would read
  behind the end of \<^verbatim>\<open>days_per_month\<close>.\<close>

function find_month :: "int \<Rightarrow> bool \<Rightarrow> int \<Rightarrow> (int \<times> int) option" where
  "find_month m is_leap_year remaining_secs =
     (if m < 1 \<or> 12 < m then None
      else
        (let secs_in_month_m = days_per_month ! nat (m - 1) * secs_per_day;
             secs_in_month_m =
               (if is_leap_year \<and> m = 2 then secs_in_month_m + secs_per_day
                else secs_in_month_m)
         in if secs_in_month_m \<le> remaining_secs
            then find_month (m + 1) is_leap_year (remaining_secs - secs_in_month_m)
            else Some (m, remaining_secs)))"
  by pat_completeness auto
termination
  by (relation "measure (\<lambda>(m, is_leap_year, remaining_secs). nat (13 - m))") auto

declare find_year.simps [simp del]

declare find_month.simps [simp del]

definition to_date_time :: "int \<Rightarrow> int \<Rightarrow> (int \<times> int \<times> int \<times> int \<times> int \<times> int) option" where
  "to_date_time gps_week gps_tow =
     Option.bind (checked_int (gps_week * secs_per_week)) (\<lambda>week_secs.
     Option.bind (checked_int (week_secs + gps_tow)) (\<lambda>secs_since_gps_epoch.
     Option.bind (checked_int (secs_since_gps_epoch + 5 * secs_per_day)) (\<lambda>remaining_secs.
       (case find_year 1980 remaining_secs of (year, is_leap_year, remaining_secs) \<Rightarrow>
        Option.bind (find_month 1 is_leap_year remaining_secs) (\<lambda>(month, remaining_secs).
          (let day = c_div remaining_secs secs_per_day + 1;
               remaining_secs = c_mod remaining_secs secs_per_day;
               hour = c_div remaining_secs (60 * 60);
               remaining_secs = c_mod remaining_secs (60 * 60);
               minute = c_div remaining_secs 60;
               second = c_mod remaining_secs 60
           in Some (year, month, day, hour, minute, second)))))))"

subsection \<open>The reference calendar\<close>

text \<open>
  The Gregorian calendar as the spec words it, independent of the loops above: the
  leap year rule, the lengths of the months, and the number of a day by the closed
  formula of the Julian day number. \<open>seconds_after_gps_epoch\<close> counts the seconds from
  6 January 1980 00:00 to a date and time, with days of 86400 seconds (no leap
  seconds).
\<close>

definition gregorian_leap_year :: "int \<Rightarrow> bool" where
  "gregorian_leap_year y = ((y mod 4 = 0 \<and> y mod 100 \<noteq> 0) \<or> y mod 400 = 0)"

definition gregorian_month_length :: "int \<Rightarrow> int \<Rightarrow> int" where
  "gregorian_month_length y m =
     (if m = 2 then (if gregorian_leap_year y then 29 else 28)
      else if m = 4 \<or> m = 6 \<or> m = 9 \<or> m = 11 then 30
      else 31)"

definition julian_day_number :: "int \<Rightarrow> int \<Rightarrow> int \<Rightarrow> int" where
  "julian_day_number y m d =
     (let a = (14 - m) div 12;
          y' = y + 4800 - a;
          m' = m + 12 * a - 3
      in d + (153 * m' + 2) div 5 + 365 * y' + y' div 4 - y' div 100 + y' div 400 - 32045)"

definition valid_date_time :: "int \<times> int \<times> int \<times> int \<times> int \<times> int \<Rightarrow> bool" where
  "valid_date_time dt =
     (case dt of (y, m, d, h, mi, s) \<Rightarrow>
        1 \<le> m \<and> m \<le> 12 \<and> 1 \<le> d \<and> d \<le> gregorian_month_length y m \<and>
        0 \<le> h \<and> h < 24 \<and> 0 \<le> mi \<and> mi < 60 \<and> 0 \<le> s \<and> s < 60)"

definition seconds_after_gps_epoch :: "int \<times> int \<times> int \<times> int \<times> int \<times> int \<Rightarrow> int" where
  "seconds_after_gps_epoch dt =
     (case dt of (y, m, d, h, mi, s) \<Rightarrow>
        (julian_day_number y m d - julian_day_number 1980 1 6) * 86400 +
        h * 3600 + mi * 60 + s)"

section \<open>Headers (rinex_printer.cc, lines 284-613 and 915-1144)\<close>

text \<open>
  A reading of the clock: the day of the year and the ISO string of the date of today
  (\<^verbatim>\<open>boost::gregorian::to_iso_string(today)\<close>, eight digits), and the fields of the
  \<^verbatim>\<open>tm\<close> structure of the time (\<open>tm_mon\<close> counts from 0, \<open>tm_year\<close> from 1900).
\<close>

record clock_reading =
  day_of_year :: int
  today_iso_string :: string
  tm_sec :: int
  tm_min :: int
  tm_hour :: int
  tm_mday :: int
  tm_mon :: int
  tm_year :: int

text \<open>The fields of \<^verbatim>\<open>Gps_Iono\<close> and \<^verbatim>\<open>Gps_Utc_Model\<close> that the printer reads.\<close>

record Gps_Iono =
  d_alpha0 :: real
  d_alpha1 :: real
  d_alpha2 :: real
  d_alpha3 :: real
  d_beta0 :: real
  d_beta1 :: real
  d_beta2 :: real
  d_beta3 :: real

record Gps_Utc_Model =
  d_A0 :: real
  d_A1 :: real
  d_t_OT :: real
  i_WN_T :: int
  d_DeltaT_LS :: real
  d_DeltaT_LSF :: real
  i_WN_LSF :: int
  i_DN :: int

text \<open>\<^verbatim>\<open>if (x < 10) strm << "0"; strm << x;\<close>\<close>

definition two_digits :: "int \<Rightarrow> string" where
  "two_digits x = (if x < 10 then ''0'' else []) @ lexical_cast_int x"

definition months :: "int \<rightharpoonup> string" where
  "months = map_of
     [(0, ''JAN''), (1, ''FEB''), (2, ''MAR''), (3, ''APR''), (4, ''MAY''), (5, ''JUN''),
      (6, ''JUL''), (7, ''AUG''), (8, ''SEP''), (9, ''OCT''), (10, ''NOV''), (11, ''DEC'')]"

text \<open>\<^verbatim>\<open>getLocalTime\<close> (lines 284-353).\<close>

definition getLocalTime :: "int \<Rightarrow> clock_reading \<Rightarrow> string" where
  "getLocalTime version now =
     (let line = ''GNSS-SDR'' @ replicate 12 CHR '' '' @ leftJustify ''CTTC'' 20;
          strmHour = two_digits (tm_hour now);
          strmMin = two_digits (tm_min now)
      in line @
         (if version = 2 then
            rightJustify (lexical_cast_int (tm_mday now)) 2 @ ''-'' @
            map_index months (tm_mon now) @ ''-'' @
            lexical_cast_int (tm_year now - 100) @ sp @
            strmHour @ '':'' @ strmMin @ replicate 5 CHR '' ''
          else []) @
         (if version = 3 then
            sp @ today_iso_string now @ strmHour @ strmMin @
            two_digits (tm_sec now) @ sp @ ''UTC'' @ sp
          else []))"

definition comment_line :: "string \<Rightarrow> string" where
  "comment_line text = leftJustify text 60 @ leftJustify ''COMMENT'' 20"

definition end_of_header :: string where
  "end_of_header = replicate 60 CHR '' '' @ leftJustify ''END OF HEADER'' 20"

text \<open>\<^verbatim>\<open>rinex_nav_header\<close> (lines 356-524).\<close>

definition rinex_nav_header_lines ::
  "helpers \<Rightarrow> int \<Rightarrow> string \<Rightarrow> clock_reading \<Rightarrow> Gps_Iono \<Rightarrow> Gps_Utc_Model \<Rightarrow> string list" where
  "rinex_nav_header_lines H version stringVersion now iono utc_model =
     [replicate 5 CHR '' '' @ stringVersion @ replicate 11 CHR '' '' @
        (if version = 2 then ''N: GPS NAV DATA'' @ replicate 25 CHR '' '' else []) @
        (if version = 3 then
           ''N: GNSS NAV DATA'' @ replicate 4 CHR '' '' @ ''G: GPS'' @ replicate 14 CHR '' ''
         else []) @
        ''RINEX VERSION / TYPE'',
      getLocalTime version now @ ''PGM / RUN BY / DATE'' @ sp,
      comment_line ''GPS NAVIGATION MESSAGE FILE GENERATED BY GNSS-SDR'',
      comment_line ''See http://gnss-sdr.org'',
      (if version = 2 then
         replicate 2 CHR '' '' @
         rightJustify (doub2for H (d_alpha0 iono) 10 2) 12 @
         rightJustify (doub2for H (d_alpha1 iono) 10 2) 12 @
         rightJustify (doub2for H (d_alpha2 iono) 10 2) 12 @
         rightJustify (doub2for H (d_alpha3 iono) 10 2) 12 @
         replicate 10 CHR '' '' @ leftJustify ''ION ALPHA'' 20
       else []) @
      (if version = 3 then
         ''GPSA'' @ sp @
         rightJustify (doub2for H (d_alpha0 iono) 10 2) 12 @
         rightJustify (doub2for H (d_alpha1 iono) 10 2) 12 @
         rightJustify (doub2for H (d_alpha2 iono) 10 2) 12 @
         rightJustify (doub2for H (d_alpha3 iono) 10 2) 12 @
         replicate 7 CHR '' '' @ leftJustify ''IONOSPHERIC CORR'' 20
       else []),
      (if version = 2 then
         replicate 2 CHR '' '' @
         rightJustify (doub2for H (d_beta0 iono) 10 2) 12 @
         rightJustify (doub2for H (d_beta1 iono) 10 2) 12 @
         rightJustify (doub2for H (d_beta2 iono) 10 2) 12 @
         rightJustify (doub2for H (d_beta3 iono) 10 2) 12 @
         replicate 10 CHR '' '' @ leftJustify ''ION BETA'' 20
       else []) @
      (if version = 3 then
         ''GPSB'' @ sp @
         rightJustify (doub2for H (d_beta0 iono) 10 2) 12 @
         rightJustify (doub2for H (d_beta1 iono) 10 2) 12 @
         rightJustify (doub2for H (d_beta2 iono) 10 2) 12 @
         rightJustify (doub2for H (d_beta3 iono) 10 2) 12 @
         replicate 7 CHR '' '' @ leftJustify ''IONOSPHERIC CORR'' 20
       else []),
      (if version = 2 then
         replicate 3 CHR '' '' @
         rightJustify (doub2for H (d_A0 utc_model) 18 2) 19 @
         rightJustify (doub2for H (d_A1 utc_model) 18 2) 19 @
         rightJustify (lexical_cast_double H (d_t_OT utc_model)) 9 @
         rightJustify (lexical_cast_int (i_WN_T utc_model + 1024)) 9 @
         sp @ leftJustify ''DELTA-UTC: A0,A1,T,W'' 20
       else []) @
      (if version = 3 then
         ''GPUT'' @
         rightJustify (doub2for H (d_A0 utc_model) 16 2) 18 @
         rightJustify (doub2for H (d_A1 utc_model) 15 2) 16 @
         rightJustify (lexical_cast_double H (d_t_OT utc_model)) 7 @
         rightJustify (lexical_cast_int (i_WN_T utc_model + 1024)) 5 @
         replicate 10 CHR '' '' @ leftJustify ''TIME SYSTEM CORR'' 20
       else []),
      rightJustify (lexical_cast_double H (d_DeltaT_LS utc_model)) 6 @
      (if version = 2 then replicate 54 CHR '' '' else []) @
      (if version = 3 then
         rightJustify (lexical_cast_double H (d_DeltaT_LSF utc_model)) 6 @
         rightJustify (lexical_cast_int (i_WN_LSF utc_model)) 6 @
         rightJustify (lexical_cast_int (i_DN utc_model)) 6 @
         replicate 36 CHR '' ''
       else []) @
      leftJustify ''LEAP SECONDS'' 20,
      end_of_header]"

definition rinex_nav_header ::
  "helpers \<Rightarrow> int \<Rightarrow> string \<Rightarrow> clock_reading \<Rightarrow> Gps_Iono \<Rightarrow> Gps_Utc_Model \<Rightarrow> outcome" where
  "rinex_nav_header H version stringVersion now iono utc_model =
     run (map Write_checked (rinex_nav_header_lines H version stringVersion now iono utc_model))"

text \<open>
  \<^verbatim>\<open>rinex_sbs_header\<close> (lines 528-613). The date of \<^verbatim>\<open>pt.date()\<close> is that of the \<^verbatim>\<open>tm\<close>
  structure made from the same \<^verbatim>\<open>pt\<close>: the year is \<open>tm_year + 1900\<close> and the month
  \<open>tm_mon + 1\<close>.
\<close>

definition rinex_sbs_header_lines :: "clock_reading \<Rightarrow> string list" where
  "rinex_sbs_header_lines now =
     (let utc_year = tm_year now + 1900 - 2000;
          utc_month = tm_mon now + 1;
          utc_day = tm_mday now;
          time_str =
            two_digits utc_day @ ''-'' @ two_digits utc_month @ ''-'' @
            lexical_cast_int utc_year @ sp @
            two_digits (tm_hour now) @ two_digits (tm_min now)
      in [replicate 5 CHR '' '' @ ''2.10'' @ replicate 11 CHR '' '' @
            leftJustify ''B SBAS DATA'' 20 @ replicate 20 CHR '' '' @
            ''RINEX VERSION / TYPE'',
          leftJustify ''GNSS-SDR'' 20 @ leftJustify ''CTTC'' 20 @
            leftJustify time_str 20 @ leftJustify ''PGM / RUN BY / DATE'' 20,
          replicate 60 CHR '' '' @ leftJustify ''REC INDEX/TYPE/VERS'' 20,
          comment_line ''BROADCAST DATA FILE FOR GEO SV, GENERATED BY GNSS-SDR'',
          comment_line ''See http://gnss-sdr.org'',
          end_of_header])"

definition rinex_sbs_header :: "clock_reading \<Rightarrow> outcome" where
  "rinex_sbs_header now = run (map Write_checked (rinex_sbs_header_lines now))"

text \<open>
  \<^verbatim>\<open>rinex_obs_header\<close> (lines 915-1144). \<open>user\<close> is the result of \<^verbatim>\<open>getenv("USER")\<close>:
  \<open>None\<close> is the null pointer, from which no string can be made.
\<close>

definition obs_first_time_line :: "helpers \<Rightarrow> Gps_Ephemeris \<Rightarrow> real \<Rightarrow> exn + string" where
  "obs_first_time_line H eph d_TOW_first_observation =
     (let timestring = to_iso_string H (compute_GPS_time eph d_TOW_first_observation) in
      try_then (substr timestring 0 4) (\<lambda>year.
      try_then (substr timestring 4 2) (\<lambda>month.
      try_then (substr timestring 6 2) (\<lambda>day.
      try_then (substr timestring 9 2) (\<lambda>hour.
      try_then (substr timestring 11 2) (\<lambda>minutes.
        (let gps_t = d_TOW_first_observation;
             seconds = fmod gps_t 60
         in Inr (rightJustify year 6 @ rightJustify month 6 @ rightJustify day 6 @
                 rightJustify hour 6 @ rightJustify minutes 6 @
                 rightJustify (asString H seconds 7) 13 @
                 rightJustify ''GPS'' 8 @ replicate 9 CHR '' '' @
                 leftJustify ''TIME OF FIRST OBS'' 20))))))))"

definition rinex_obs_header ::
  "helpers \<Rightarrow> int \<Rightarrow> string \<Rightarrow> int \<Rightarrow> clock_reading \<Rightarrow> string option \<Rightarrow>
   Gps_Ephemeris \<Rightarrow> real \<Rightarrow> outcome" where
  "rinex_obs_header H version stringVersion numberTypesObservations now user eph
     d_TOW_first_observation =
     run (
      [Write_checked
         (replicate 5 CHR '' '' @ stringVersion @ replicate 11 CHR '' '' @
          leftJustify ''OBSERVATION DATA'' 20 @ map_index satelliteSystem ''GPS'' @
          replicate 19 CHR '' '' @ ''RINEX VERSION / TYPE''),
       Write_checked
         ((if version = 2 then
             leftJustify ''BLANK OR G = GPS,  R = GLONASS,  E = GALILEO,  M = MIXED'' 60
           else []) @
          (if version = 3 then
             leftJustify ''G = GPS  R = GLONASS  E = GALILEO  S = GEO  M = MIXED'' 60
           else []) @
          leftJustify ''COMMENT'' 20),
       Write_checked (getLocalTime version now @ ''PGM / RUN BY / DATE'' @ sp),
       Write_checked (comment_line ''GPS OBSERVATION DATA FILE GENERATED BY GNSS-SDR''),
       Write_checked (comment_line ''See http://gnss-sdr.org''),
       Write_checked (leftJustify ''DEFAULT MARKER NAME'' 60 @ leftJustify ''MARKER NAME'' 20),
       checked_line
         (case user of
            None \<Rightarrow> Inl undefined_behaviour
          | Some username \<Rightarrow>
              Inr (leftJustify username 20 @ leftJustify ''CTTC'' 40 @
                   leftJustify ''OBSERVER / AGENCY'' 20)),
       Write_checked
         (leftJustify ''GNSS-SDR'' 20 @ leftJustify ''Software Receiver'' 20 @
          leftJustify ''0.1'' 20 @ leftJustify ''REC # / TYPE / VERS'' 20),
       Write_checked
         (leftJustify ''Antenna number'' 20 @ leftJustify ''Antenna type'' 20 @
          replicate 20 CHR '' '' @ leftJustify ''ANT # / TYPE'' 20),
       Write_checked
         (let antena_x = 0; antena_y = 0; antena_z = 0
          in rightJustify (asString H antena_x 4) 14 @
             rightJustify (asString H antena_y 4) 14 @
             rightJustify (asString H antena_z 4) 14 @
             replicate 18 CHR '' '' @ leftJustify ''APPROX POSITION XYZ'' 20),
       Write_checked
         (let antena_h = 0; antena_e = 0; antena_n = 0
          in rightJustify (asString H antena_h 4) 14 @
             rightJustify (asString H antena_e 4) 14 @
             rightJustify (asString H antena_n 4) 14 @
             replicate 18 CHR '' '' @ leftJustify ''ANTENNA: DELTA H/E/N'' 20)] @
      (if version = 2 then
         [Write_checked
            (rightJustify ''1'' 6 @ rightJustify ''1'' 6 @ replicate 48 CHR '' '' @
             leftJustify ''WAVELENGTH FACT L1/2'' 20)]
       else []) @
      (if version = 3 then
         [checked_line
            (try_then
               (pad_to 60
                  (map_index satelliteSystem ''GPS'' @ replicate 2 CHR '' '' @
                   rightJustify (lexical_cast_int numberTypesObservations) 3 @ sp @
                   map_index observationType ''PSEUDORANGE'' @
                   map_index observationCode ''GPS_L1_CA'' @ sp @
                   map_index observationType ''SIGNAL_STRENGTH'' @
                   map_index observationCode ''GPS_L1_CA''))
               (\<lambda>line. Inr (line @ leftJustify ''SYS / # / OBS TYPES'' 20)))]
       else []) @
      (if version = 2 then
         [checked_line
            (try_then
               (pad_to 60
                  (rightJustify (lexical_cast_int numberTypesObservations) 6 @
                   rightJustify (map_index observationType ''PSEUDORANGE_CA_v2'') 5 @
                   map_index observationCode ''GPS_L1_CA_v2'' @
                   rightJustify (map_index observationType ''CARRIER_PHASE_CA_v2'') 5 @
                   map_index observationCode ''GPS_L1_CA_v2'' @
                   rightJustify (map_index observationType ''DOPPLER_v2'') 5 @
                   map_index observationCode ''GPS_L1_CA_v2'' @
                   rightJustify (map_index observationType ''SIGNAL_STRENGTH_v2'') 5 @
                   map_index observationCode ''GPS_L1_CA_v2''))
               (\<lambda>line. Inr (line @ leftJustify ''# / TYPES OF OBSERV'' 20)))]
       else []) @
      (if version = 3 then
         [Write_checked
            (leftJustify ''DBHZ'' 20 @ replicate 40 CHR '' '' @
             leftJustify ''SIGNAL STRENGTH UNIT'' 20)]
       else []) @
      [checked_line (obs_first_time_line H eph d_TOW_first_observation),
       Write_checked end_of_header])"

section \<open>SBAS records (rinex_printer.cc, lines 1417-1497)\<close>

text \<open>
  What the printer reads of an \<^verbatim>\<open>Sbas_Raw_Msg\<close>: the PRN, the time of reception (\<open>None\<close>
  when \<^verbatim>\<open>get_gps_time\<close> returns false, the week and the seconds otherwise), the type
  of the message and its bytes.
\<close>

record Sbas_Raw_Msg =
  get_prn :: int
  get_gps_time :: "(int \<times> real) option"
  get_msg_type :: int
  get_msg :: "8 word list"

text \<open>\<^verbatim>\<open>round\<close> of \<^verbatim>\<open><cmath>\<close> rounds halfway cases away from zero.\<close>

definition round_double :: "real \<Rightarrow> real" where
  "round_double x = (if 0 \<le> x then of_int \<lfloor>x + 1 / 2\<rfloor> else - of_int \<lfloor>- x + 1 / 2\<rfloor>)"

text \<open>A byte in the stream after \<^verbatim>\<open>std::hex << std::setfill('0') << std::setw(2)\<close>: two
  hexadecimal digits.\<close>

definition hex_byte :: "8 word \<Rightarrow> string" where
  "hex_byte b =
     [''0123456789abcdef'' ! (unat b div 16), ''0123456789abcdef'' ! (unat b mod 16)]"

text \<open>Line 1: PRN / EPOCH / RCVR (lines 1420-1465).\<close>

definition sbs_line1 :: "helpers \<Rightarrow> Sbas_Raw_Msg \<Rightarrow> exn + string" where
  "sbs_line1 H sbs_message =
     try_then
       (case get_gps_time sbs_message of
          Some (gps_week, gps_sec) \<Rightarrow>
            (let gps_sec_one_digit_precicion = round_double (gps_sec * 10) / 10 in
             case double_to_int gps_sec_one_digit_precicion of
               None \<Rightarrow> Inl undefined_behaviour
             | Some gps_tow \<Rightarrow>
                 (let sub_sec = gps_sec_one_digit_precicion - of_int gps_tow in
                  case to_date_time gps_week gps_tow of
                    None \<Rightarrow> Inl undefined_behaviour
                  | Some (year, month, day, hour, minute, second) \<Rightarrow>
                      Inr (asFixWidthString H year 2 CHR ''0'' @ sp @
                           asFixWidthString H month 2 CHR ''0'' @ sp @
                           asFixWidthString H day 2 CHR ''0'' @ sp @
                           asFixWidthString H hour 2 CHR ''0'' @ sp @
                           asFixWidthString H minute 2 CHR ''0'' @ sp @
                           rightJustify (asString H (of_int second + sub_sec) 1) 4)))
        | None \<Rightarrow> Inr (replicate 19 CHR '' ''))
       (\<lambda>epoch. Inr (
          lexical_cast_int (get_prn sbs_message) @ sp @ epoch @ replicate 2 CHR '' '' @
          ''L1'' @ replicate 3 CHR '' '' @
          asFixWidthString H (int (length (get_msg sbs_message))) 3 CHR '' '' @
          replicate 3 CHR '' '' @ ''  0'' @ replicate 3 CHR '' '' @ ''SBA'' @
          replicate 35 CHR '' ''))"

text \<open>DATA RECORD - 1 (lines 1468-1483): the first 18 bytes.\<close>

definition sbs_line2 :: "Sbas_Raw_Msg \<Rightarrow> string" where
  "sbs_line2 sbs_message =
     sp @ (if get_msg_type sbs_message < 10 then sp else []) @
     lexical_cast_int (get_msg_type sbs_message) @ replicate 4 CHR '' '' @
     concat (map (\<lambda>b. hex_byte b @ sp) (take 18 (get_msg sbs_message))) @
     replicate 19 CHR '' ''"

text \<open>DATA RECORD - 2 (lines 1486-1496): the bytes 18 to 35.\<close>

definition sbs_line3 :: "Sbas_Raw_Msg \<Rightarrow> string" where
  "sbs_line3 sbs_message =
     replicate 7 CHR '' '' @
     concat (map (\<lambda>b. hex_byte b @ sp) (take 18 (drop 18 (get_msg sbs_message)))) @
     replicate 31 CHR '' ''"

definition log_rinex_sbs :: "helpers \<Rightarrow> Sbas_Raw_Msg \<Rightarrow> outcome" where
  "log_rinex_sbs H sbs_message =
     run [checked_line (sbs_line1 H sbs_message),
          Write_checked (sbs_line2 sbs_message),
          Write_checked (sbs_line3 sbs_message)]"

section \<open>Construction and destruction (rinex_printer.cc, lines 56-281)\<close>

text \<open>
  The file system maps the name of a file to its contents. Whether a name can be
  opened for writing (the directory exists and is writable, the name is not that of a
  directory, ...) is decided outside the program: it is the parameter \<open>can_open\<close>.

  An output stream opened with \<^verbatim>\<open>std::ios::out | std::ios::app\<close>:
  when the file cannot be opened, the stream is in the failed state, no file is
  created, \<^verbatim>\<open>tellp()\<close> returns -1 and every later write is ignored; otherwise the
  file is created empty when it does not exist and keeps its contents when it does,
  the stream is positioned at the end of the file, so that \<^verbatim>\<open>tellp()\<close> is the size
  of the file, and every write goes to the end of the file.
\<close>

type_synonym filesystem = "string \<rightharpoonup> string"

record ofstream =
  path :: string
  failbit :: bool
  tellp :: int

definition ofstream_open ::
  "(string \<Rightarrow> bool) \<Rightarrow> string \<Rightarrow> filesystem \<Rightarrow> ofstream \<times> filesystem" where
  "ofstream_open can_open name fs =
     (if \<not> can_open name then (\<lparr>path = name, failbit = True, tellp = - 1\<rparr>, fs)
      else
        (case fs name of
           None \<Rightarrow> (\<lparr>path = name, failbit = False, tellp = 0\<rparr>, fs(name \<mapsto> []))
         | Some contents \<Rightarrow>
             (\<lparr>path = name, failbit = False, tellp = int (length contents)\<rparr>, fs)))"

definition ofstream_write :: "ofstream \<Rightarrow> string \<Rightarrow> filesystem \<Rightarrow> ofstream \<times> filesystem" where
  "ofstream_write f bytes fs =
     (if failbit f \<or> bytes = [] then (f, fs)
      else
        (let contents = map_index fs (path f) @ bytes
         in (f\<lparr>tellp := int (length contents)\<rparr>, fs(path f \<mapsto> contents))))"

text \<open>\<^verbatim>\<open>remove(name)\<close> of \<^verbatim>\<open><cstdio>\<close>.\<close>

definition remove_file :: "string \<Rightarrow> filesystem \<Rightarrow> filesystem" where
  "remove_file name fs = fs(name := None)"

definition fileType :: "string \<rightharpoonup> string" where
  "fileType = map_of
     [(''RINEX_FILE_TYPE_OBS'', ''O''),
      (''RINEX_FILE_TYPE_GPS_NAV'', ''N''),
      (''RINEX_FILE_TYPE_MET'', ''M''),
      (''RINEX_FILE_TYPE_GLO_NAV'', ''G''),
      (''RINEX_FILE_TYPE_GAL_NAV'', ''L''),
      (''RINEX_FILE_TYPE_MIXED_NAV'', ''P''),
      (''RINEX_FILE_TYPE_GEO_NAV'', ''H''),
      (''RINEX_FILE_TYPE_SBAS'', ''B''),
      (''RINEX_FILE_TYPE_CLK'', ''C''),
      (''RINEX_FILE_TYPE_SUMMARY'', ''S'')]"

text \<open>\<^verbatim>\<open>Hmap\<close> maps the hours "0" to "23" to the letters a to x.\<close>

definition Hmap :: "string \<rightharpoonup> string" where
  "Hmap = map_of (map (\<lambda>h. (lexical_cast_int (int h), [''abcdefghijklmnopqrstuvwx'' ! h])) [0..<24])"

definition createFilename :: "clock_reading \<Rightarrow> string \<Rightarrow> string" where
  "createFilename now type =
     (let stationName = ''GSDR'';
          dayOfTheYear = day_of_year now;
          dayOfTheYearTag =
            (if dayOfTheYear < 100 then ''0'' else []) @
            (if dayOfTheYear < 10 then ''0'' else []) @ lexical_cast_int dayOfTheYear;
          local_hour = tm_hour now;
          hourTag = map_index Hmap (lexical_cast_int local_hour);
          local_minute = tm_min now;
          minTag = (if local_minute < 10 then ''0'' else []) @ lexical_cast_int local_minute;
          local_year = tm_year now - 100;
          yearTag = lexical_cast_int local_year;
          typeOfFile = map_index fileType type
      in stationName @ dayOfTheYearTag @ hourTag @ minTag @ ''.'' @ yearTag @ typeOfFile)"

text \<open>
  The members of the printer that the constructor and the destructor use. The member
  \<^verbatim>\<open>version\<close> is an \<^verbatim>\<open>int\<close> without initialiser: \<open>None\<close> stands for the value that was
  never assigned.
\<close>

record Rinex_Printer =
  navfilename :: string
  obsfilename :: string
  sbsfilename :: string
  navFile :: ofstream
  obsFile :: ofstream
  sbsFile :: ofstream
  version :: "int option"
  stringVersion :: string
  numberTypesObservations :: int

text \<open>
  The constructor (lines 56-163), from the names that can be opened, the three
  readings of the clock, the value of the flag \<^verbatim>\<open>RINEX_version\<close> and the file system.
  It returns the printer, the file system and the messages of \<^verbatim>\<open>LOG(ERROR)\<close>, which
  writes to the log and returns. The constructor does not test whether a stream was
  opened.
\<close>

definition Rinex_Printer_ctor ::
  "(string \<Rightarrow> bool) \<Rightarrow> clock_reading \<Rightarrow> clock_reading \<Rightarrow> clock_reading \<Rightarrow> string \<Rightarrow>
   filesystem \<Rightarrow> Rinex_Printer \<times> filesystem \<times> string list" where
  "Rinex_Printer_ctor can_open now1 now2 now3 FLAGS_RINEX_version fs =
     (let navfilename = createFilename now1 ''RINEX_FILE_TYPE_GPS_NAV'';
          obsfilename = createFilename now2 ''RINEX_FILE_TYPE_OBS'';
          sbsfilename = createFilename now3 ''RINEX_FILE_TYPE_SBAS'';
          (navFile, fs) = ofstream_open can_open navfilename fs;
          (obsFile, fs) = ofstream_open can_open obsfilename fs;
          (sbsFile, fs) = ofstream_open can_open sbsfilename fs;
          (version, stringVersion, messages) =
            (if compare FLAGS_RINEX_version ''3.01'' = 0 then (Some 3, ''3.01'', [])
             else if compare FLAGS_RINEX_version ''2.11'' = 0 then (Some 2, ''2.10'', [])
             else if compare FLAGS_RINEX_version ''2.10'' = 0 then (Some 2, ''2.10'', [])
             else (None, [],
                   [''Unknown RINEX version '' @ FLAGS_RINEX_version @
                    '' (must be 2.11 or 3.01)'']))
      in (\<lparr>navfilename = navfilename, obsfilename = obsfilename, sbsfilename = sbsfilename,
           navFile = navFile, obsFile = obsFile, sbsFile = sbsFile,
           version = version, stringVersion = stringVersion,
           numberTypesObservations = 2\<rparr>, fs, messages))"

text \<open>The destructor (lines 167-190); closing the streams changes no file, and
  \<^verbatim>\<open>remove\<close> of a file that does not exist changes nothing.\<close>

definition Rinex_Printer_dtor :: "Rinex_Printer \<Rightarrow> filesystem \<Rightarrow> filesystem" where
  "Rinex_Printer_dtor p fs =
     (let posn = tellp (navFile p);
          poso = tellp (obsFile p);
          poss = tellp (obsFile p);
          fs = (if posn = 0 then remove_file (navfilename p) fs else fs);
          fs = (if poso = 0 then remove_file (obsfilename p) fs else fs);
          fs = (if poss = 0 then remove_file (sbsfilename p) fs else fs)
      in fs)"

section \<open>Sample inputs\<close>

text \<open>
  Inputs at which the statements below are instantiated. \<open>sample_helpers\<close> renders a
  number in the Fortran format as zeros of the requested width, a fixed-point number
  by the digits of its integral part and zeros as decimals (exact for the integral
  values used here), and every time as 2013-03-07 12:30:45.5.
  \<open>zero_ephemeris prn week\<close> is the ephemeris of the scenario in the spec, with all
  orbital and clock fields zero.
\<close>

definition sample_helpers :: helpers where
  "sample_helpers =
     \<lparr>doub2for = (\<lambda>d w e. replicate w CHR ''0''),
      asString = (\<lambda>x p. digits (nat \<lfloor>x\<rfloor>) @ ''.'' @ replicate p CHR ''0''),
      lexical_cast_double = (\<lambda>x. digits (nat \<lfloor>x\<rfloor>)),
      to_iso_string = (\<lambda>x. ''20130307T123045.500000''),
      asFixWidthString = (\<lambda>i w c. replicate (w - length (digits (nat i))) c @ digits (nat i))\<rparr>"

definition zero_ephemeris :: "int \<Rightarrow> int \<Rightarrow> Gps_Ephemeris" where
  "zero_ephemeris prn week =
     \<lparr>i_satellite_PRN = prn, d_TOW = 0, i_GPS_week = week,
      d_A_f0 = 0, d_A_f1 = 0, d_A_f2 = 0, d_Crs = 0, d_Delta_n = 0, d_M_0 = 0,
      d_Cuc = 0, d_e_eccentricity = 0, d_Cus = 0, d_sqrt_A = 0, d_Toe = 0, d_Cic = 0,
      d_OMEGA0 = 0, d_Cis = 0, d_i_0 = 0, d_Crc = 0, d_OMEGA = 0, d_OMEGA_DOT = 0,
      d_IDOT = 0, i_code_on_L2 = 0, i_SV_accuracy = 0, i_SV_health = 0, d_TGD = 0,
      d_IODC = 0, satelliteBlock = Map.empty\<rparr>"

definition sample_observation :: Gnss_Synchro where
  "sample_observation =
     \<lparr>Pseudorange_m = 20000000, Carrier_phase_rads = 0, Carrier_Doppler_hz = 1000,
      CN0_dB_hz = 45\<rparr>"


text \<open>A reading of the clock: 7 March 2013, 12:30:45.\<close>

definition sample_time :: clock_reading where
  "sample_time =
     \<lparr>day_of_year = 66, today_iso_string = ''20130307'',
      tm_sec = 45, tm_min = 30, tm_hour = 12, tm_mday = 7, tm_mon = 2, tm_year = 113\<rparr>"

text \<open>An epoch with the seventeen satellites of PRN 1 to 17.\<close>

definition seventeen_satellites :: "(int \<times> Gnss_Synchro) list" where
  "seventeen_satellites =
     map (\<lambda>prn. (prn, sample_observation))
       [1, 2, 3, 4, 5, 6, 7, 8, 9, 10, 11, 12, 13, 14, 15, 16, 17]"

section \<open>Properties\<close>

subsection \<open>Signal strength\<close>

text \<open>
  Claim C8. The input of \<open>signalStrength\<close> is a carrier-to-noise value in dB-Hz; the
  conversion \<^verbatim>\<open>int(floor(snr/6))\<close> is defined by C++ for every input whose quotient
  by 6, floored, fits a 32-bit \<^verbatim>\<open>int\<close>, that is for every input from \<open>- 6 * 2 ^ 31\<close>
  up to, but excluding, \<open>6 * 2 ^ 31\<close> (lemma \<open>in_int_range_floor_sixth\<close>), which
  contains every carrier-to-noise value. For every such input \<open>signalStrength\<close> has a
  result, the result is the floor of the input divided by 6, clamped to the range from
  1 to 9, and it lies in that range; 54.0 gives 9, 0.0 gives 1 and 30.0 gives 5.
\<close>

theorem signalStrength_clamps:
  "(in_int_range \<lfloor>snr / 6\<rfloor> \<longrightarrow>
      (\<exists>r. signalStrength snr = Some r \<and> r = min (max \<lfloor>snr / 6\<rfloor> 1) 9 \<and> 1 \<le> r \<and> r \<le> 9))
   \<and> signalStrength 54 = Some 9 \<and> signalStrength 0 = Some 1 \<and> signalStrength 30 = Some 5"
  by (simp add: signalStrength_def double_to_int_def floor_double_def truncate_real_def
      in_int_range_def INT_MIN_def INT_MAX_def)

theorem signalStrength_clamps_witness:
  "in_int_range \<lfloor>(47 :: real) / 6\<rfloor> \<and> signalStrength 47 = Some 7"
proof -
  have h: "in_int_range \<lfloor>(47 :: real) / 6\<rfloor>"
    by (simp add: in_int_range_def INT_MIN_def INT_MAX_def)
  from signalStrength_clamps [of 47] h
  have "\<exists>r. signalStrength 47 = Some r \<and> r = min (max \<lfloor>(47 :: real) / 6\<rfloor> 1) 9 \<and> 1 \<le> r \<and> r \<le> 9"
    by blast
  then have "signalStrength 47 = Some 7" by simp
  with h show ?thesis by simp
qed

lemma in_int_range_floor_sixth:
  "in_int_range \<lfloor>snr / 6\<rfloor> \<longleftrightarrow> - 12884901888 \<le> snr \<and> snr < 12884901888"
proof -
  have "INT_MIN \<le> \<lfloor>snr / 6\<rfloor> \<longleftrightarrow> - 12884901888 \<le> snr"
    by (simp add: INT_MIN_def le_floor_iff)
  moreover have "\<lfloor>snr / 6\<rfloor> \<le> INT_MAX \<longleftrightarrow> snr < 12884901888"
  proof -
    have "\<lfloor>snr / 6\<rfloor> \<le> INT_MAX \<longleftrightarrow> \<lfloor>snr / 6\<rfloor> < 2147483648"
      by (simp add: INT_MAX_def)
    also have "\<dots> \<longleftrightarrow> snr / 6 < 2147483648"
      by (simp add: floor_less_iff)
    also have "\<dots> \<longleftrightarrow> snr < 12884901888"
      by simp
    finally show ?thesis .
  qed
  ultimately show ?thesis
    by (simp add: in_int_range_def)
qed

subsection \<open>Curve fit interval\<close>

text \<open>
  Claim C2 at its failing inputs. The branch commented as the table of Block II/IIA
  is guarded by \<^verbatim>\<open>compare("IIA")\<close>, which holds when the block is not "IIA": for the
  block "IIA" no table is consulted, and the IODC values 496 and 757 give the default
  of 4 hours (the claim: 14 and 98 hours).
\<close>

theorem curve_fit_interval_IIA:
  "curve_fit_interval ''IIA'' 496 = 4 \<and> curve_fit_interval ''IIA'' 757 = 4"
  by (simp add: curve_fit_interval_def compare_def)

text \<open>The tables are reached by every other block name, and an IODC outside all
  ranges gives the default for every block.\<close>

lemma curve_fit_interval_other_block:
  "curve_fit_interval ''II'' 496 = 14 \<and> curve_fit_interval ''II'' 757 = 98"
  by (simp add: curve_fit_interval_def compare_def)

lemma curve_fit_interval_default:
  "iodc \<le> 239 \<or> (256 \<le> iodc \<and> iodc < 496) \<or> (511 < iodc \<and> iodc \<le> 751) \<or>
   (757 < iodc \<and> iodc \<le> 1020) \<or> 1024 \<le> iodc \<Longrightarrow> curve_fit_interval block iodc = 4"
  unfolding curve_fit_interval_def Let_def by (elim disjE) simp_all

subsection \<open>Lines, strings and numbers\<close>

lemma satelliteSystem_GPS [simp]: "map_index satelliteSystem ''GPS'' = ''G''"
  by (simp add: satelliteSystem_def map_index_def)

lemma run_Write_checked:
  "run (map Write_checked ls) = \<lparr>written = ls, logged = concat (map lengthCheck ls), thrown = None\<rparr>"
  by (induction ls) (simp_all add: Let_def)

lemma substr_ok: "pos \<le> length s \<Longrightarrow> substr s pos n = Inr (take n (drop pos s))"
  by (simp add: substr_def)

lemma try_then_Inr [simp]: "try_then (Inr v) f = f v"
  by (simp add: try_then_def)

lemma try_then_Inl [simp]: "try_then (Inl e) f = Inl e"
  by (simp add: try_then_def)

lemma nav_decimal_zero: "nav_decimal ts = ''0''"
  by (simp add: nav_decimal_def)

lemma nav_clock_line_v2:
  assumes "13 \<le> length (to_iso_string H (compute_GPS_time eph (d_TOW eph)))"
  shows "nav_clock_line H 2 eph = Inr (
     rightJustify (lexical_cast_int (i_satellite_PRN eph)) 2 @ sp @
     take 2 (drop 2 (to_iso_string H (compute_GPS_time eph (d_TOW eph)))) @ sp @
     take 2 (drop 4 (to_iso_string H (compute_GPS_time eph (d_TOW eph)))) @ sp @
     take 2 (drop 6 (to_iso_string H (compute_GPS_time eph (d_TOW eph)))) @ sp @
     take 2 (drop 9 (to_iso_string H (compute_GPS_time eph (d_TOW eph)))) @ sp @
     take 2 (drop 11 (to_iso_string H (compute_GPS_time eph (d_TOW eph)))) @ sp @
     take 2 (drop 13 (to_iso_string H (compute_GPS_time eph (d_TOW eph)))) @ ''.'' @ ''0'' @ sp @
     doub2for H (d_A_f0 eph) 18 2 @ sp @
     doub2for H (d_A_f1 eph) 18 2 @ sp @
     doub2for H (d_A_f2 eph) 18 2 @ sp)"
  using assms by (simp add: nav_clock_line_def Let_def substr_ok nav_decimal_zero)


lemma nav_clock_line_Inr:
  assumes "13 \<le> length (to_iso_string H (compute_GPS_time eph (d_TOW eph)))"
  shows "\<exists>l. nav_clock_line H ver eph = Inr l"
  using assms by (simp add: nav_clock_line_def Let_def substr_ok)

lemma nav_record_lines:
  assumes "13 \<le> length (to_iso_string H (compute_GPS_time eph (d_TOW eph)))"
  shows "nav_record H ver eph =
    map Write_checked (projr (nav_clock_line H ver eph) # nav_orbit_lines H ver eph)"
proof -
  from nav_clock_line_Inr [OF assms] obtain l where "nav_clock_line H ver eph = Inr l" by blast
  then show ?thesis by (simp add: nav_record_def checked_line_def)
qed

lemma log_rinex_nav_run:
  assumes "\<forall>x. 13 \<le> length (to_iso_string H x)"
  shows "log_rinex_nav H ver eph_map =
     run (map Write_checked (concat (map (\<lambda>(prn, eph).
        projr (nav_clock_line H ver eph) # nav_orbit_lines H ver eph) eph_map)))"
proof -
  have "concat (map (\<lambda>(prn, eph). nav_record H ver eph) eph_map) =
     map Write_checked (concat (map (\<lambda>(prn, eph).
        projr (nav_clock_line H ver eph) # nav_orbit_lines H ver eph) eph_map))"
    using assms by (induction eph_map) (auto simp: nav_record_lines)
  then show ?thesis by (simp add: log_rinex_nav_def)
qed

lemma length_nav_orbit_lines: "length (nav_orbit_lines H ver eph) = 7"
  by (simp add: nav_orbit_lines_def Let_def)

lemma nth_concat_blocks:
  assumes "\<forall>x \<in> set xs. length (f x) = n" and "i < length xs" and "k < n"
  shows "concat (map f xs) ! (n * i + k) = f (xs ! i) ! k"
  using assms
proof (induction xs arbitrary: i)
  case Nil then show ?case by simp
next
  case (Cons x xs)
  show ?case
  proof (cases i)
    case 0
    with Cons.prems show ?thesis by (simp add: nth_append)
  next
    case (Suc j)
    with Cons.prems have "concat (map f xs) ! (n * j + k) = f (xs ! j) ! k"
      by (intro Cons.IH) auto
    with Suc Cons.prems show ?thesis by (simp add: nth_append add.assoc)
  qed
qed



lemma written_log_rinex_nav:
  assumes "\<forall>x. 13 \<le> length (to_iso_string H x)"
  shows "written (log_rinex_nav H ver eph_map) =
     concat (map (\<lambda>(prn, eph).
        projr (nav_clock_line H ver eph) # nav_orbit_lines H ver eph) eph_map)"
    and "thrown (log_rinex_nav H ver eph_map) = None"
  by (simp_all add: log_rinex_nav_run [OF assms] run_Write_checked)

lemma nth_written_log_rinex_nav:
  assumes iso: "\<forall>x. 13 \<le> length (to_iso_string H x)"
    and i: "i < length eph_map" and k: "k < 8"
  shows "written (log_rinex_nav H ver eph_map) ! (8 * i + k) =
     (projr (nav_clock_line H ver (snd (eph_map ! i))) #
      nav_orbit_lines H ver (snd (eph_map ! i))) ! k"
proof -
  let ?f = "\<lambda>(prn, eph). projr (nav_clock_line H ver eph) # nav_orbit_lines H ver eph"
  have len: "\<forall>x \<in> set eph_map. length (?f x) = 8"
    by (auto simp: length_nav_orbit_lines)
  have "concat (map ?f eph_map) ! (8 * i + k) = ?f (eph_map ! i) ! k"
    using len i k by (rule nth_concat_blocks)
  then show ?thesis
    by (simp add: written_log_rinex_nav(1) [OF iso] case_prod_unfold)
qed



lemma digits_lt_10: "n < 10 \<Longrightarrow> digits n = [''0123456789'' ! n]"
  by (simp add: digits.simps)

lemma digits_lt_100: "10 \<le> n \<Longrightarrow> n < 100 \<Longrightarrow>
    digits n = [''0123456789'' ! (n div 10), ''0123456789'' ! (n mod 10)]"
  by (subst digits.simps) (simp add: digits_lt_10)

lemma length_digits_lt_100: "n < 100 \<Longrightarrow> length (digits n) \<le> 2"
  by (cases "n < 10") (simp_all add: digits_lt_10 digits_lt_100)


lemma length_rightJustify: "length s \<le> w \<Longrightarrow> length (rightJustify s w) = w"
  by (simp add: rightJustify_def)

lemma length_leftJustify: "length s \<le> w \<Longrightarrow> length (leftJustify s w) = w"
  by (simp add: leftJustify_def)


lemma nth_after_prefix:
  "length a = n \<Longrightarrow> (a @ x # y # r) ! n = x \<and> (a @ x # y # r) ! Suc n = y"
  by (simp add: nth_append)

subsection \<open>Navigation records\<close>



text \<open>
  Claim C10. In version 2 the clock line of every record is made of the satellite
  number, the date and time fields of the time stamp, the seconds, a decimal point,
  the character 0 and the three clock coefficients, whatever the time stamp holds
  behind its seconds. When the satellite number has one or two digits and the time
  stamp has its 15 characters, the point is the 21st and the 0 the 22nd character of
  the line.
\<close>

theorem nav_clock_line_decimal_is_zero:
  assumes iso: "\<forall>x. 13 \<le> length (to_iso_string H x)"
    and i: "i < length eph_map"
  shows "(let eph = snd (eph_map ! i);
          timestring = to_iso_string H (compute_GPS_time eph (d_TOW eph));
          line = written (log_rinex_nav H 2 eph_map) ! (8 * i)
      in line =
           rightJustify (lexical_cast_int (i_satellite_PRN eph)) 2 @ sp @
           take 2 (drop 2 timestring) @ sp @ take 2 (drop 4 timestring) @ sp @
           take 2 (drop 6 timestring) @ sp @ take 2 (drop 9 timestring) @ sp @
           take 2 (drop 11 timestring) @ sp @ take 2 (drop 13 timestring) @
           ''.'' @ ''0'' @ sp @
           doub2for H (d_A_f0 eph) 18 2 @ sp @ doub2for H (d_A_f1 eph) 18 2 @ sp @
           doub2for H (d_A_f2 eph) 18 2 @ sp \<and>
         (0 \<le> i_satellite_PRN eph \<and> i_satellite_PRN eph < 100 \<and> 15 \<le> length timestring \<longrightarrow>
            line ! 20 = CHR ''.'' \<and> line ! 21 = CHR ''0''))"
proof -
  define e where "e = snd (eph_map ! i)"
  define ts where "ts = to_iso_string H (compute_GPS_time e (d_TOW e))"
  define line where "line = written (log_rinex_nav H 2 eph_map) ! (8 * i)"
  define front where "front = rightJustify (lexical_cast_int (i_satellite_PRN e)) 2 @ sp @
           take 2 (drop 2 ts) @ sp @ take 2 (drop 4 ts) @ sp @
           take 2 (drop 6 ts) @ sp @ take 2 (drop 9 ts) @ sp @
           take 2 (drop 11 ts) @ sp @ take 2 (drop 13 ts)"
  define tail where "tail = sp @ doub2for H (d_A_f0 e) 18 2 @ sp @ doub2for H (d_A_f1 e) 18 2 @ sp @
           doub2for H (d_A_f2 e) 18 2 @ sp"
  have ts: "13 \<le> length ts"
    using iso by (simp add: ts_def)
  have c: "line = projr (nav_clock_line H 2 e)"
    using nth_written_log_rinex_nav [OF iso i, of 0] by (simp add: line_def e_def)
  have l: "line = front @ CHR ''.'' # CHR ''0'' # tail"
    unfolding c using nav_clock_line_v2 [of H e] ts
    by (simp add: ts_def front_def tail_def)
  have pos: "line ! 20 = CHR ''.'' \<and> line ! 21 = CHR ''0''"
    if prn: "0 \<le> i_satellite_PRN e" "i_satellite_PRN e < 100" and len: "15 \<le> length ts"
  proof -
    have "length (lexical_cast_int (i_satellite_PRN e)) \<le> 2"
      using prn by (simp add: lexical_cast_int_def length_digits_lt_100)
    then have "length (rightJustify (lexical_cast_int (i_satellite_PRN e)) 2) = 2"
      by (rule length_rightJustify)
    with len have "length front = 20"
      by (simp add: sp_def front_def)
    from nth_after_prefix [OF this, of "CHR ''.''" "CHR ''0''" tail] show ?thesis
      by (simp add: l)
  qed
  have A: "line =
           rightJustify (lexical_cast_int (i_satellite_PRN e)) 2 @ sp @
           take 2 (drop 2 ts) @ sp @ take 2 (drop 4 ts) @ sp @
           take 2 (drop 6 ts) @ sp @ take 2 (drop 9 ts) @ sp @
           take 2 (drop 11 ts) @ sp @ take 2 (drop 13 ts) @
           ''.'' @ ''0'' @ sp @
           doub2for H (d_A_f0 e) 18 2 @ sp @ doub2for H (d_A_f1 e) 18 2 @ sp @
           doub2for H (d_A_f2 e) 18 2 @ sp"
    by (simp add: l front_def tail_def)
  from A pos show ?thesis
    unfolding Let_def line_def ts_def e_def by blast
qed

theorem nav_clock_line_decimal_is_zero_witness:
  "(\<forall>x. 13 \<le> length (to_iso_string sample_helpers x)) \<and>
   (0 :: nat) < length [(5 :: int, zero_ephemeris 5 100)] \<and>
   take 1 (drop 16 (to_iso_string sample_helpers 0)) = ''5'' \<and>
   written (log_rinex_nav sample_helpers 2 [(5, zero_ephemeris 5 100)]) ! 0 ! 21 = CHR ''0''"
proof -
  have iso: "\<forall>x. 13 \<le> length (to_iso_string sample_helpers x)"
    by (simp add: sample_helpers_def)
  have i: "(0 :: nat) < length [(5 :: int, zero_ephemeris 5 100)]" by simp
  have prn: "i_satellite_PRN (snd ([(5 :: int, zero_ephemeris 5 100)] ! 0)) = 5"
    by (simp add: zero_ephemeris_def)
  have len: "15 \<le> length (to_iso_string sample_helpers x)" for x
    by (simp add: sample_helpers_def)
  note pos = nav_clock_line_decimal_is_zero [OF iso i, unfolded Let_def, THEN conjunct2]
  from pos prn len
  have "written (log_rinex_nav sample_helpers 2 [(5, zero_ephemeris 5 100)]) ! 0 ! 21 = CHR ''0''"
    by simp
  moreover have "take 1 (drop 16 (to_iso_string sample_helpers 0)) = ''5''"
    by (simp add: sample_helpers_def)
  ultimately show ?thesis using iso by simp
qed

subsection \<open>Observation records\<close>



lemma pad_to_overlong:
  assumes "w < length l" and "length l < 2 ^ 63"
  shows "pad_to w l = Inl length_error"
proof -
  have "(int w - int (length l)) mod 2 ^ 64 = 2 ^ 64 + (int w - int (length l))"
  proof -
    have "(int w - int (length l)) mod 2 ^ 64 = (2 ^ 64 + (int w - int (length l))) mod 2 ^ 64"
      by simp
    also have "\<dots> = 2 ^ 64 + (int w - int (length l))"
      using assms by (intro mod_pos_pos_trivial) simp_all
    finally show ?thesis .
  qed
  then have "string_max_size < size_t_minus w (length l)"
    using assms by (simp add: size_t_minus_def string_max_size_def)
  then show ?thesis
    by (simp add: pad_to_def spaces_def)
qed



lemma compare_eq_0 [simp]: "compare s t = 0 \<longleftrightarrow> s = t"
  by (simp add: compare_def)

lemma length_blank_leading_zero: "length field \<le> 2 \<Longrightarrow> length (blank_leading_zero field) \<le> 2"
  by (auto simp: blank_leading_zero_def sp_def)

lemma fmod_100_60: "fmod 100 60 = 40"
  by (simp add: fmod_def truncate_real_def)






































lemma length_sat_id: "0 \<le> prn \<Longrightarrow> prn < 100 \<Longrightarrow> length (sat_id prn) = 3"
  by (cases "prn < 10")
     (simp_all add: sat_id_def lexical_cast_int_def digits_lt_10 digits_lt_100)

lemma log_rinex_obs_overlong_epoch:
  assumes ts: "11 \<le> length (to_iso_string H (compute_GPS_time eph obs_time))"
    and long: "80 < length (obs_epoch_content_v2 H
        (take 2 (drop 2 (to_iso_string H (compute_GPS_time eph obs_time))))
        (take 2 (drop 4 (to_iso_string H (compute_GPS_time eph obs_time))))
        (take 2 (drop 6 (to_iso_string H (compute_GPS_time eph obs_time))))
        (take 2 (drop 9 (to_iso_string H (compute_GPS_time eph obs_time))))
        (take 2 (drop 11 (to_iso_string H (compute_GPS_time eph obs_time))))
        obs_time pseudoranges)"
    and bound: "length (obs_epoch_content_v2 H
        (take 2 (drop 2 (to_iso_string H (compute_GPS_time eph obs_time))))
        (take 2 (drop 4 (to_iso_string H (compute_GPS_time eph obs_time))))
        (take 2 (drop 6 (to_iso_string H (compute_GPS_time eph obs_time))))
        (take 2 (drop 9 (to_iso_string H (compute_GPS_time eph obs_time))))
        (take 2 (drop 11 (to_iso_string H (compute_GPS_time eph obs_time))))
        obs_time pseudoranges) < 2 ^ 63"
  shows "log_rinex_obs H 2 eph obs_time pseudoranges =
     \<lparr>written = [], logged = [], thrown = Some length_error\<rparr>"
  using ts by (simp add: log_rinex_obs_def Let_def substr_ok pad_to_overlong [OF long bound]
      checked_line_def)

lemma length_epoch_seventeen_satellites: "length (obs_epoch_content_v2 sample_helpers ''13'' ''03'' ''07'' ''12'' ''30'' 100
        seventeen_satellites) = 83"
  by (simp add: obs_epoch_content_v2_def seventeen_satellites_def sample_helpers_def fmod_100_60
      sp_def blank_leading_zero_def length_sat_id lexical_cast_int_def digits_lt_100
      rightJustify_def)

text \<open>
  Claim C9 at its failing input: version 2 and an epoch of seventeen satellites, PRN 1
  to 17. The content of the epoch line has 83 characters; the padding
  \<^verbatim>\<open>std::string(80 - line.size(), ' ')\<close> is asked for \<open>2 ^ 64 - 3\<close> spaces and throws
  \<^verbatim>\<open>std::length_error\<close> before the line is checked or written: nothing reaches the
  stream, and the exception leaves \<open>log_rinex_obs\<close>.
\<close>

theorem log_rinex_obs_seventeen_satellites:
  "log_rinex_obs sample_helpers 2 (zero_ephemeris 5 100) 100 seventeen_satellites =
     \<lparr>written = [], logged = [], thrown = Some length_error\<rparr>"
proof -
  have t: "to_iso_string sample_helpers x = ''20130307T123045.500000''" for x
    by (simp add: sample_helpers_def)
  show ?thesis
    by (rule log_rinex_obs_overlong_epoch) (simp_all add: t length_epoch_seventeen_satellites)
qed


subsection \<open>GPS time to calendar\<close>

lemma div_succ_int:
  fixes z k :: int
  assumes k: "0 < k"
  shows "(z + 1) div k = z div k + (if (z + 1) mod k = 0 then 1 else 0)"
proof (cases "(z + 1) mod k = 0")
  case True
  then obtain q where q: "z + 1 = k * q" by (auto simp: mod_eq_0_iff_dvd)
  have "z = k * (q - 1) + (k - 1)" using q by (simp add: algebra_simps)
  moreover have "0 \<le> k - 1" "k - 1 < k" using k by simp_all
  ultimately have "z div k = q - 1" by (rule int_div_pos_eq)
  moreover have "(z + 1) div k = q" using q k by simp
  ultimately show ?thesis using True by simp
next
  case False
  have r: "0 \<le> z mod k" "z mod k < k" using k by simp_all
  have "z mod k + 1 \<noteq> k"
  proof
    assume "z mod k + 1 = k"
    then have "(z + 1) mod k = 0"
      by (metis mod_add_left_eq mod_self)
    with False show False by simp
  qed
  with r have r1: "0 \<le> z mod k + 1" "z mod k + 1 < k" by simp_all
  have "z + 1 = k * (z div k) + (z mod k + 1)" by simp
  from int_div_pos_eq [OF this r1] show ?thesis using False by simp
qed


lemma mod_4800:
  "((y :: int) + 4800) mod 4 = y mod 4"
  "((y :: int) + 4800) mod 100 = y mod 100"
  "((y :: int) + 4800) mod 400 = y mod 400"
proof -
  have "(y + 4 * 1200) mod 4 = y mod 4" by (rule mod_mult_self2)
  then show "(y + 4800) mod 4 = y mod 4" by simp
  have "(y + 100 * 48) mod 100 = y mod 100" by (rule mod_mult_self2)
  then show "(y + 4800) mod 100 = y mod 100" by simp
  have "(y + 400 * 12) mod 400 = y mod 400" by (rule mod_mult_self2)
  then show "(y + 4800) mod 400 = y mod 400" by simp
qed

lemma jdn_day: "julian_day_number y m d = julian_day_number y m 1 + (d - 1)"
  by (simp add: julian_day_number_def Let_def)

lemma jdn_january: "julian_day_number y 1 1 =
    365 * (y + 4799) + (y + 4799) div 4 - (y + 4799) div 100 + (y + 4799) div 400 - 31738"
  by (simp add: julian_day_number_def Let_def add.commute)

lemma mod_400_0: "(y :: int) mod 400 = 0 \<Longrightarrow> y mod 100 = 0"
proof -
  assume "y mod 400 = 0"
  then have "400 dvd y" by (simp add: mod_eq_0_iff_dvd)
  moreover have "(100 :: int) dvd 400" by simp
  ultimately have "100 dvd y" by (rule dvd_trans [rotated])
  then show ?thesis by (simp add: mod_eq_0_iff_dvd)
qed

lemma mod_100_0: "(y :: int) mod 100 = 0 \<Longrightarrow> y mod 4 = 0"
proof -
  assume "y mod 100 = 0"
  then have "100 dvd y" by (simp add: mod_eq_0_iff_dvd)
  moreover have "(4 :: int) dvd 100" by simp
  ultimately have "4 dvd y" by (rule dvd_trans [rotated])
  then show ?thesis by (simp add: mod_eq_0_iff_dvd)
qed

lemma jdn_next_year:
  "julian_day_number (y + 1) 1 1 =
     julian_day_number y 1 1 + (if gregorian_leap_year y then 366 else 365)"
proof -
  have s: "y + 4799 + 1 = y + 4800" by simp
  have d4: "(y + 4800) div 4 = (y + 4799) div 4 + (if y mod 4 = 0 then 1 else 0)"
    using div_succ_int [of 4 "y + 4799", unfolded s mod_4800] by simp
  have d100: "(y + 4800) div 100 = (y + 4799) div 100 + (if y mod 100 = 0 then 1 else 0)"
    using div_succ_int [of 100 "y + 4799", unfolded s mod_4800] by simp
  have d400: "(y + 4800) div 400 = (y + 4799) div 400 + (if y mod 400 = 0 then 1 else 0)"
    using div_succ_int [of 400 "y + 4799", unfolded s mod_4800] by simp
  have e: "y + 1 + 4799 = y + 4800" by simp
  show ?thesis
    unfolding jdn_january e d4 d100 d400 gregorian_leap_year_def
    using mod_400_0 [of y] mod_100_0 [of y] by auto
qed

lemma jdn_leap_step:
  "365 * (y + 4800) + (y + 4800) div 4 - (y + 4800) div 100 + (y + 4800) div 400 =
   365 * (y + 4799) + (y + 4799) div 4 - (y + 4799) div 100 + (y + 4799) div 400 +
   (if gregorian_leap_year y then 366 else 365)"
proof -
  have s: "y + 4799 + 1 = y + 4800" by simp
  have d4: "(y + 4800) div 4 = (y + 4799) div 4 + (if y mod 4 = 0 then 1 else 0)"
    using div_succ_int [of 4 "y + 4799", unfolded s mod_4800] by simp
  have d100: "(y + 4800) div 100 = (y + 4799) div 100 + (if y mod 100 = 0 then 1 else 0)"
    using div_succ_int [of 100 "y + 4799", unfolded s mod_4800] by simp
  have d400: "(y + 4800) div 400 = (y + 4799) div 400 + (if y mod 400 = 0 then 1 else 0)"
    using div_succ_int [of 400 "y + 4799", unfolded s mod_4800] by simp
  show ?thesis
    unfolding d4 d100 d400 gregorian_leap_year_def
    using mod_400_0 [of y] mod_100_0 [of y] by auto
qed

lemma int_cases_1_12:
  fixes m :: int
  assumes "1 \<le> m" "m \<le> 12"
  shows "m = 1 \<or> m = 2 \<or> m = 3 \<or> m = 4 \<or> m = 5 \<or> m = 6 \<or>
         m = 7 \<or> m = 8 \<or> m = 9 \<or> m = 10 \<or> m = 11 \<or> m = 12"
  using assms by arith

lemma jdn_first_of_month:
  assumes "1 \<le> m" "m \<le> 12"
  shows "julian_day_number y m 1 =
     365 * (y + 4799) + (y + 4799) div 4 - (y + 4799) div 100 + (y + 4799) div 400 - 31738 +
     [0, 31, 59, 90, 120, 151, 181, 212, 243, 273, 304, 334] ! nat (m - 1) +
     (if 2 < m \<and> gregorian_leap_year y then 1 else 0)"
proof -
  have early: "julian_day_number y 2 1 = julian_day_number y 1 1 + 31"
    by (simp add: julian_day_number_def Let_def)
  have late: "julian_day_number y k 1 =
     julian_day_number y 1 1 + (153 * (k - 3) + 2) div 5 + 59 +
       (if gregorian_leap_year y then 1 else 0)" if "3 \<le> k" "k \<le> 12" for k
  proof -
    have a: "(14 - k) div 12 = 0" using that by simp
    have "julian_day_number y k 1 = 1 + (153 * (k - 3) + 2) div 5 +
       (365 * (y + 4800) + (y + 4800) div 4 - (y + 4800) div 100 + (y + 4800) div 400) - 32045"
      by (simp add: julian_day_number_def Let_def a)
    then show ?thesis
      unfolding jdn_leap_step jdn_january by simp
  qed
  from int_cases_1_12 [OF assms] show ?thesis
    by (elim disjE) (simp_all add: early late jdn_january)
qed

lemma jdn_next_month:
  assumes "1 \<le> m" "m \<le> 11"
  shows "julian_day_number y (m + 1) 1 = julian_day_number y m 1 + gregorian_month_length y m"
proof -
  from assms have "m = 1 \<or> m = 2 \<or> m = 3 \<or> m = 4 \<or> m = 5 \<or> m = 6 \<or>
         m = 7 \<or> m = 8 \<or> m = 9 \<or> m = 10 \<or> m = 11" by arith
  then show ?thesis
    by (elim disjE) (simp_all add: jdn_first_of_month gregorian_month_length_def)
qed

lemma jdn_december:
  "julian_day_number (y + 1) 1 1 = julian_day_number y 12 1 + 31"
  unfolding jdn_next_year by (simp add: jdn_first_of_month)

lemma secs_in_month:
  assumes "1 \<le> m" "m \<le> 12"
  shows "(if gregorian_leap_year y \<and> m = 2
          then days_per_month ! nat (m - 1) * secs_per_day + secs_per_day
          else days_per_month ! nat (m - 1) * secs_per_day) =
         gregorian_month_length y m * 86400"
  using int_cases_1_12 [OF assms]
  by (elim disjE)
     (simp_all add: days_per_month_def gregorian_month_length_def secs_per_day_def)


lemma is_leap_year_gregorian:
  "(y mod 4 = 0 \<and> (y mod 100 \<noteq> 0 \<or> y mod 400 = 0)) = gregorian_leap_year y"
  unfolding gregorian_leap_year_def using mod_400_0 [of y] mod_100_0 [of y] by auto

lemma find_year_unfold:
  "find_year y r =
     (if (if gregorian_leap_year y then 366 else 365) * 86400 \<le> r
      then find_year (y + 1) (r - (if gregorian_leap_year y then 366 else 365) * 86400)
      else (y, gregorian_leap_year y, r))"
  by (subst find_year.simps, unfold is_leap_year_gregorian)
     (simp add: Let_def secs_per_leap_year_def secs_per_normal_year_def secs_per_day_def)

lemma find_year_correct:
  assumes "0 \<le> r"
  shows "\<exists>y' r'. find_year y r = (y', gregorian_leap_year y', r') \<and> 0 \<le> r' \<and>
     r' < (if gregorian_leap_year y' then 366 else 365) * 86400 \<and>
     julian_day_number y' 1 1 * 86400 + r' = julian_day_number y 1 1 * 86400 + r"
  using assms
proof (induction "nat r" arbitrary: y r rule: less_induct)
  case less
  let ?len = "(if gregorian_leap_year y then 366 else 365) * (86400 :: int)"
  have pos: "0 < ?len" by simp
  show ?case
  proof (cases "?len \<le> r")
    case True
    have step: "find_year y r = find_year (y + 1) (r - ?len)"
      using True by (subst find_year_unfold) simp
    have "nat (r - ?len) < nat r" "0 \<le> r - ?len"
      using True pos by linarith+
    from less.hyps [OF this]
    obtain y' r' where h: "find_year (y + 1) (r - ?len) = (y', gregorian_leap_year y', r')"
      "0 \<le> r'" "r' < (if gregorian_leap_year y' then 366 else 365) * 86400"
      "julian_day_number y' 1 1 * 86400 + r' = julian_day_number (y + 1) 1 1 * 86400 + (r - ?len)"
      by blast
    have "julian_day_number (y + 1) 1 1 * 86400 + (r - ?len) = julian_day_number y 1 1 * 86400 + r"
      unfolding jdn_next_year by (simp add: algebra_simps)
    with h step show ?thesis by auto
  next
    case False
    have "find_year y r = (y, gregorian_leap_year y, r)"
      using False by (subst find_year_unfold) simp
    with False less.prems show ?thesis by auto
  qed
qed

lemma find_month_unfold:
  assumes "1 \<le> m" "m \<le> 12"
  shows "find_month m (gregorian_leap_year y) r =
     (if gregorian_month_length y m * 86400 \<le> r
      then find_month (m + 1) (gregorian_leap_year y) (r - gregorian_month_length y m * 86400)
      else Some (m, r))"
proof -
  have "\<not> (m < 1 \<or> 12 < m)" using assms by simp
  then show ?thesis
    by (subst find_month.simps) (simp only: if_False Let_def secs_in_month [OF assms])
qed

lemma find_month_correct:
  assumes "1 \<le> m" "m \<le> 12" "0 \<le> r"
    and "julian_day_number y m 1 * 86400 + r < julian_day_number (y + 1) 1 1 * 86400"
  shows "\<exists>m' r'. find_month m (gregorian_leap_year y) r = Some (m', r') \<and>
     1 \<le> m' \<and> m' \<le> 12 \<and> 0 \<le> r' \<and> r' < gregorian_month_length y m' * 86400 \<and>
     julian_day_number y m' 1 * 86400 + r' = julian_day_number y m 1 * 86400 + r"
  using assms
proof (induction "nat (12 - m)" arbitrary: m r rule: less_induct)
  case less
  let ?len = "gregorian_month_length y m * 86400"
  note u = find_month_unfold [OF less.prems(1,2), of y r]
  show ?case
  proof (cases "?len \<le> r")
    case True
    have m11: "m \<le> 11"
    proof (rule ccontr)
      assume "\<not> m \<le> 11"
      with less.prems have m: "m = 12" by simp
      then have "?len = 31 * 86400" by (simp add: gregorian_month_length_def)
      with True less.prems(4) show False
        unfolding m jdn_december by simp
    qed
    have len_pos: "0 \<le> ?len"
      by (simp add: gregorian_month_length_def)
    have step: "find_month m (gregorian_leap_year y) r =
        find_month (m + 1) (gregorian_leap_year y) (r - ?len)"
      using True u by simp
    have next_month: "julian_day_number y (m + 1) 1 * 86400 + (r - ?len) =
        julian_day_number y m 1 * 86400 + r"
      unfolding jdn_next_month [OF less.prems(1) m11] by (simp add: algebra_simps)
    have "nat (12 - (m + 1)) < nat (12 - m)" "1 \<le> m + 1" "m + 1 \<le> 12" "0 \<le> r - ?len"
      using m11 less.prems True by simp_all
    moreover have "julian_day_number y (m + 1) 1 * 86400 + (r - ?len) <
        julian_day_number (y + 1) 1 1 * 86400"
      using less.prems(4) next_month by simp
    ultimately obtain m' r' where h:
      "find_month (m + 1) (gregorian_leap_year y) (r - ?len) = Some (m', r')"
      "1 \<le> m'" "m' \<le> 12" "0 \<le> r'" "r' < gregorian_month_length y m' * 86400"
      "julian_day_number y m' 1 * 86400 + r' = julian_day_number y (m + 1) 1 * 86400 + (r - ?len)"
      using less.hyps [of "m + 1" "r - ?len"] by blast
    with step next_month show ?thesis by auto
  next
    case False
    with u less.prems show ?thesis by auto
  qed
qed

lemma c_div_nonneg: "0 \<le> a \<Longrightarrow> 0 < b \<Longrightarrow> c_div a b = a div b"
  by (cases "a = 0") (simp_all add: c_div_def)

lemma c_mod_nonneg: "0 \<le> a \<Longrightarrow> 0 < b \<Longrightarrow> c_mod a b = a mod b"
  by (simp add: c_mod_def c_div_nonneg minus_mult_div_eq_mod)

lemma checked_int_Some: "INT_MIN \<le> r \<Longrightarrow> r \<le> INT_MAX \<Longrightarrow> checked_int r = Some r"
  by (simp add: checked_int_def in_int_range_def)

lemma split_seconds:
  fixes x :: int
  shows "x div 3600 * 3600 + x mod 3600 div 60 * 60 + x mod 3600 mod 60 = x"
proof -
  have "x mod 3600 div 60 * 60 + x mod 3600 mod 60 = x mod 3600" by simp
  then show ?thesis by (simp add: add.assoc)
qed

text \<open>
  Claim C3, as amended. For every week and time of week that are not negative and
  whose instant, counted from 1 January 1980, fits a 32-bit \<^verbatim>\<open>int\<close> (week * 604800 +
  tow + 432000 is at most \<open>2 ^ 31 - 1\<close>: the instants up to 19 January 2048 03:14:07),
  \<open>to_date_time\<close> returns a date and time that is valid in the Gregorian calendar
  and lies exactly week * 604800 + tow seconds after 6 January 1980 00:00, by the
  reference calendar (leap year rule, days of 86400 seconds, no leap seconds).
\<close>

theorem to_date_time_gregorian:
  assumes w: "0 \<le> gps_week" and t: "0 \<le> gps_tow"
    and range: "gps_week * 604800 + gps_tow + 432000 \<le> INT_MAX"
  shows "\<exists>dt. to_date_time gps_week gps_tow = Some dt \<and> valid_date_time dt \<and>
     seconds_after_gps_epoch dt = gps_week * 604800 + gps_tow"
proof -
  define secs where "secs = gps_week * 604800 + gps_tow"
  define rem0 where "rem0 = secs + 432000"
  have week_nonneg: "0 \<le> gps_week * 604800" using w by simp
  have c1: "checked_int (gps_week * 604800) = Some (gps_week * 604800)"
    using week_nonneg t range by (intro checked_int_Some) (simp_all add: INT_MIN_def)
  have c2: "checked_int (gps_week * 604800 + gps_tow) = Some secs"
    unfolding secs_def using week_nonneg t range by (intro checked_int_Some) (simp_all add: INT_MIN_def)
  have c3: "checked_int (secs + 432000) = Some rem0"
    unfolding secs_def rem0_def
    using week_nonneg t range by (intro checked_int_Some) (simp_all add: INT_MIN_def)
  have rem0: "0 \<le> rem0" using week_nonneg t by (simp add: rem0_def secs_def)
  from find_year_correct [OF rem0, of 1980]
  obtain y r1 where fy: "find_year 1980 rem0 = (y, gregorian_leap_year y, r1)"
    and r1: "0 \<le> r1" "r1 < (if gregorian_leap_year y then 366 else 365) * 86400"
    and j1: "julian_day_number y 1 1 * 86400 + r1 = julian_day_number 1980 1 1 * 86400 + rem0"
    by blast
  have "julian_day_number y 1 1 * 86400 + r1 < julian_day_number (y + 1) 1 1 * 86400"
    unfolding jdn_next_year using r1 by (simp split: if_splits)
  from find_month_correct [OF _ _ r1(1) this]
  obtain m r2 where fm: "find_month 1 (gregorian_leap_year y) r1 = Some (m, r2)"
    and m: "1 \<le> m" "m \<le> 12"
    and r2: "0 \<le> r2" "r2 < gregorian_month_length y m * 86400"
    and j2: "julian_day_number y m 1 * 86400 + r2 = julian_day_number y 1 1 * 86400 + r1"
    by auto
  define d where "d = r2 div 86400 + 1"
  define x where "x = r2 mod 86400"
  define dt where "dt = (y, m, d, x div 3600, x mod 3600 div 60, x mod 3600 mod 60)"
  have x: "0 \<le> x" "x < 86400" by (simp_all add: x_def)
  have result: "to_date_time gps_week gps_tow = Some dt"
    using r2(1) x(1)
    by (simp add: to_date_time_def secs_per_week_def secs_per_day_def c1 c2 c3 fy fm Let_def
        c_div_nonneg c_mod_nonneg dt_def d_def x_def)
  have d: "1 \<le> d" "d \<le> gregorian_month_length y m"
  proof -
    show "1 \<le> d" using r2(1) by (simp add: d_def pos_imp_zdiv_nonneg_iff)
    have "r2 div 86400 < gregorian_month_length y m"
      using r2(2) by (simp add: div_less_iff_less_mult)
    then show "d \<le> gregorian_month_length y m" by (simp add: d_def)
  qed
  have h: "x div 3600 < 24"
    using x(2) by (simp add: div_less_iff_less_mult)
  have valid: "valid_date_time dt"
    using m d x h by (simp add: valid_date_time_def dt_def pos_imp_zdiv_nonneg_iff)
  have r2_split: "(d - 1) * 86400 + x = r2"
    by (simp add: d_def x_def)
  have epoch: "julian_day_number 1980 1 6 = julian_day_number 1980 1 1 + 5"
    by (subst jdn_day) simp
  have hms: "x div 3600 * 3600 + x mod 3600 div 60 * 60 + x mod 3600 mod 60 = x"
    by (rule split_seconds)
  have "seconds_after_gps_epoch dt =
      (julian_day_number y m d - julian_day_number 1980 1 6) * 86400 +
      (x div 3600 * 3600 + x mod 3600 div 60 * 60 + x mod 3600 mod 60)"
    by (simp add: seconds_after_gps_epoch_def dt_def)
  also have "\<dots> =
      (julian_day_number y m 1 + (d - 1) - (julian_day_number 1980 1 1 + 5)) * 86400 + x"
    unfolding hms epoch jdn_day [of y m d] ..
  also have "\<dots> = julian_day_number y m 1 * 86400 + r2 - julian_day_number 1980 1 1 * 86400 - 432000"
    using r2_split by (simp add: algebra_simps)
  also have "\<dots> = secs"
    using j1 j2 by (simp add: rem0_def)
  finally have "seconds_after_gps_epoch dt = gps_week * 604800 + gps_tow"
    by (simp add: secs_def)
  with result valid show ?thesis by blast
qed


theorem to_date_time_gregorian_witness:
  "(0 :: int) \<le> 1886 \<and> (0 :: int) \<le> 90061 \<and> 1886 * 604800 + 90061 + 432000 \<le> INT_MAX \<and>
   to_date_time 1886 90061 = Some (2016, 2, 29, 1, 1, 1) \<and>
   valid_date_time (2016, 2, 29, 1, 1, 1) \<and>
   seconds_after_gps_epoch (2016, 2, 29, 1, 1, 1) = 1886 * 604800 + 90061"
proof -
  have r: "1886 * 604800 + 90061 + 432000 \<le> INT_MAX"
    by (simp add: INT_MAX_def)
  have e: "to_date_time 1886 90061 = Some (2016, 2, 29, 1, 1, 1)"
    by (simp add: to_date_time_def checked_int_def in_int_range_def INT_MIN_def INT_MAX_def
        secs_per_week_def secs_per_day_def find_year_unfold gregorian_leap_year_def
        find_month.simps days_per_month_def c_div_def c_mod_def)
  from to_date_time_gregorian [of 1886 90061, OF _ _ r]
  obtain dt where "to_date_time 1886 90061 = Some dt" "valid_date_time dt"
    "seconds_after_gps_epoch dt = 1886 * 604800 + 90061"
    by auto
  with e r show ?thesis by simp
qed

text \<open>
  Claim C3 as stated fails after 19 January 2048. 26 January 2048 00:00 is week 3551, time of
  week 0, by the reference calendar; 3551 * 604800 exceeds \<open>2 ^ 31 - 1\<close>, the product
  \<^verbatim>\<open>gps_week*secs_per_week\<close> overflows and the conversion has no defined result.
\<close>

theorem to_date_time_overflow:
  "to_date_time 3551 0 = None \<and> valid_date_time (2048, 1, 26, 0, 0, 0) \<and>
   seconds_after_gps_epoch (2048, 1, 26, 0, 0, 0) = 3551 * 604800 + 0"
  by (simp add: to_date_time_def checked_int_def in_int_range_def INT_MIN_def INT_MAX_def
      secs_per_week_def secs_per_day_def valid_date_time_def seconds_after_gps_epoch_def
      julian_day_number_def gregorian_month_length_def)

subsection \<open>Construction and destruction\<close>

lemma Hmap_12: "map_index Hmap ''12'' = ''m''"
  by (simp add: Hmap_def map_index_def lexical_cast_int_def digits_lt_10 digits_lt_100 upt_rec)

lemma fileType_sample:
  "map_index fileType ''RINEX_FILE_TYPE_GPS_NAV'' = ''N''"
  "map_index fileType ''RINEX_FILE_TYPE_OBS'' = ''O''"
  "map_index fileType ''RINEX_FILE_TYPE_SBAS'' = ''B''"
  by (simp_all add: fileType_def map_index_def)

lemma createFilename_sample:
  "createFilename sample_time ''RINEX_FILE_TYPE_GPS_NAV'' = ''GSDR066m30.13N''"
  "createFilename sample_time ''RINEX_FILE_TYPE_OBS'' = ''GSDR066m30.13O''"
  "createFilename sample_time ''RINEX_FILE_TYPE_SBAS'' = ''GSDR066m30.13B''"
  by (simp_all add: createFilename_def sample_time_def Hmap_12 fileType_sample
      lexical_cast_int_def digits_lt_100)

lemma last_createFilename:
  assumes "map_index fileType type \<noteq> []"
  shows "last (createFilename now type) = last (map_index fileType type)"
proof -
  obtain front where "createFilename now type = front @ map_index fileType type"
    unfolding createFilename_def Let_def by (metis append.assoc)
  with assms show ?thesis by simp
qed

lemma createFilename_distinct:
  "createFilename now1 ''RINEX_FILE_TYPE_GPS_NAV'' \<noteq> createFilename now2 ''RINEX_FILE_TYPE_OBS''"
  "createFilename now1 ''RINEX_FILE_TYPE_GPS_NAV'' \<noteq> createFilename now3 ''RINEX_FILE_TYPE_SBAS''"
  "createFilename now2 ''RINEX_FILE_TYPE_OBS'' \<noteq> createFilename now3 ''RINEX_FILE_TYPE_SBAS''"
proof -
  have n: "last (createFilename now1 ''RINEX_FILE_TYPE_GPS_NAV'') = CHR ''N''"
    by (subst last_createFilename) (simp_all add: fileType_sample)
  have o: "last (createFilename now2 ''RINEX_FILE_TYPE_OBS'') = CHR ''O''"
    by (subst last_createFilename) (simp_all add: fileType_sample)
  have b: "last (createFilename now3 ''RINEX_FILE_TYPE_SBAS'') = CHR ''B''"
    by (subst last_createFilename) (simp_all add: fileType_sample)
  show "createFilename now1 ''RINEX_FILE_TYPE_GPS_NAV'' \<noteq> createFilename now2 ''RINEX_FILE_TYPE_OBS''"
  proof
    assume "createFilename now1 ''RINEX_FILE_TYPE_GPS_NAV'' = createFilename now2 ''RINEX_FILE_TYPE_OBS''"
    with n o show False by simp
  qed
  show "createFilename now1 ''RINEX_FILE_TYPE_GPS_NAV'' \<noteq> createFilename now3 ''RINEX_FILE_TYPE_SBAS''"
  proof
    assume "createFilename now1 ''RINEX_FILE_TYPE_GPS_NAV'' = createFilename now3 ''RINEX_FILE_TYPE_SBAS''"
    with n b show False by simp
  qed
  show "createFilename now2 ''RINEX_FILE_TYPE_OBS'' \<noteq> createFilename now3 ''RINEX_FILE_TYPE_SBAS''"
  proof
    assume "createFilename now2 ''RINEX_FILE_TYPE_OBS'' = createFilename now3 ''RINEX_FILE_TYPE_SBAS''"
    with o b show False by simp
  qed
qed

lemma ofstream_open_files:
  "snd (ofstream_open can_open name fs) =
     (if can_open name \<and> fs name = None then fs(name \<mapsto> []) else fs)"
  by (simp add: ofstream_open_def split: option.splits)

lemma ofstream_open_stream:
  "fst (ofstream_open can_open name fs) =
     \<lparr>path = name, failbit = \<not> can_open name,
      tellp = (if can_open name then int (length (map_index fs name)) else - 1)\<rparr>"
  by (simp add: ofstream_open_def map_index_def split: option.splits)

text \<open>
  Claim C5, as amended. For every value of the flag other than "3.01", "2.11" and
  "2.10", every file system and whatever names can be opened, the constructor logs
  the error "Unknown RINEX version ..." and completes: it returns the printer, whose
  version is left unset. The three streams were opened before the flag is examined:
  a stream is in the failed state exactly when its name cannot be opened, and is
  positioned at the end of its file otherwise. Nothing is written: afterwards the
  file system is the one before construction, except that each of the three files
  that can be opened and did not exist now exists and is empty; a file that existed
  keeps its contents, and no file is produced under a name that cannot be opened.
\<close>

theorem Rinex_Printer_ctor_unknown_version:
  assumes "flag \<noteq> ''3.01''" "flag \<noteq> ''2.11''" "flag \<noteq> ''2.10''"
  shows "(case Rinex_Printer_ctor can_open now1 now2 now3 flag fs of (p, fs', messages) \<Rightarrow>
     messages = [''Unknown RINEX version '' @ flag @ '' (must be 2.11 or 3.01)''] \<and>
     version p = None \<and>
     navFile p = \<lparr>path = navfilename p, failbit = \<not> can_open (navfilename p),
       tellp = (if can_open (navfilename p) then int (length (map_index fs (navfilename p)))
                else - 1)\<rparr> \<and>
     obsFile p = \<lparr>path = obsfilename p, failbit = \<not> can_open (obsfilename p),
       tellp = (if can_open (obsfilename p) then int (length (map_index fs (obsfilename p)))
                else - 1)\<rparr> \<and>
     sbsFile p = \<lparr>path = sbsfilename p, failbit = \<not> can_open (sbsfilename p),
       tellp = (if can_open (sbsfilename p) then int (length (map_index fs (sbsfilename p)))
                else - 1)\<rparr> \<and>
     (\<forall>name. fs' name =
        (if name \<in> {navfilename p, obsfilename p, sbsfilename p} \<and> can_open name \<and>
            fs name = None
         then Some [] else fs name)))"
proof -
  define nav where "nav = createFilename now1 ''RINEX_FILE_TYPE_GPS_NAV''"
  define obs where "obs = createFilename now2 ''RINEX_FILE_TYPE_OBS''"
  define sbs where "sbs = createFilename now3 ''RINEX_FILE_TYPE_SBAS''"
  define fs1 where "fs1 = snd (ofstream_open can_open nav fs)"
  define fs2 where "fs2 = snd (ofstream_open can_open obs fs1)"
  define fs3 where "fs3 = snd (ofstream_open can_open sbs fs2)"
  have distinct: "nav \<noteq> obs" "nav \<noteq> sbs" "obs \<noteq> sbs"
    unfolding nav_def obs_def sbs_def by (rule createFilename_distinct)+
  have fs1: "fs1 = (if can_open nav \<and> fs nav = None then fs(nav \<mapsto> []) else fs)"
    by (simp add: fs1_def ofstream_open_files)
  have fs2: "fs2 = (if can_open obs \<and> fs1 obs = None then fs1(obs \<mapsto> []) else fs1)"
    by (simp add: fs2_def ofstream_open_files)
  have fs3: "fs3 = (if can_open sbs \<and> fs2 sbs = None then fs2(sbs \<mapsto> []) else fs2)"
    by (simp add: fs3_def ofstream_open_files)
  have o1: "ofstream_open can_open nav fs = (fst (ofstream_open can_open nav fs), fs1)"
    by (simp add: fs1_def)
  have o2: "ofstream_open can_open obs fs1 = (fst (ofstream_open can_open obs fs1), fs2)"
    by (simp add: fs2_def)
  have o3: "ofstream_open can_open sbs fs2 = (fst (ofstream_open can_open sbs fs2), fs3)"
    by (simp add: fs3_def)
  have same1: "map_index fs1 obs = map_index fs obs"
    using distinct by (simp add: fs1 map_index_def)
  have same2: "map_index fs2 sbs = map_index fs sbs"
    using distinct by (simp add: fs1 fs2 map_index_def)
  have ctor: "Rinex_Printer_ctor can_open now1 now2 now3 flag fs =
     (\<lparr>navfilename = nav, obsfilename = obs, sbsfilename = sbs,
       navFile = fst (ofstream_open can_open nav fs),
       obsFile = fst (ofstream_open can_open obs fs1),
       sbsFile = fst (ofstream_open can_open sbs fs2),
       version = None, stringVersion = [], numberTypesObservations = 2\<rparr>,
      fs3, [''Unknown RINEX version '' @ flag @ '' (must be 2.11 or 3.01)''])"
    using assms
    by (simp add: Rinex_Printer_ctor_def Let_def nav_def [symmetric] obs_def [symmetric]
        sbs_def [symmetric] case_prod_unfold fs1_def [symmetric] fs2_def [symmetric]
        fs3_def [symmetric])
  have files: "fs3 name =
     (if name \<in> {nav, obs, sbs} \<and> can_open name \<and> fs name = None then Some [] else fs name)"
    for name
    using distinct by (auto simp: fs1 fs2 fs3)
  show ?thesis
    unfolding ctor by (simp add: ofstream_open_stream same1 same2 files)
qed

theorem Rinex_Printer_ctor_unknown_version_witness:
  "''3.00'' \<noteq> ''3.01'' \<and> ''3.00'' \<noteq> ''2.11'' \<and> ''3.00'' \<noteq> ''2.10'' \<and>
   snd (snd (Rinex_Printer_ctor (\<lambda>name. name \<noteq> ''GSDR066m30.13B'')
     sample_time sample_time sample_time ''3.00'' [''GSDR066m30.13N'' \<mapsto> ''abc''])) =
     [''Unknown RINEX version 3.00 (must be 2.11 or 3.01)''] \<and>
   tellp (navFile (fst (Rinex_Printer_ctor (\<lambda>name. name \<noteq> ''GSDR066m30.13B'')
     sample_time sample_time sample_time ''3.00'' [''GSDR066m30.13N'' \<mapsto> ''abc'']))) = 3 \<and>
   fst (snd (Rinex_Printer_ctor (\<lambda>name. name \<noteq> ''GSDR066m30.13B'')
     sample_time sample_time sample_time ''3.00'' [''GSDR066m30.13N'' \<mapsto> ''abc'']))
     ''GSDR066m30.13N'' = Some ''abc'' \<and>
   fst (snd (Rinex_Printer_ctor (\<lambda>name. name \<noteq> ''GSDR066m30.13B'')
     sample_time sample_time sample_time ''3.00'' [''GSDR066m30.13N'' \<mapsto> ''abc'']))
     ''GSDR066m30.13O'' = Some [] \<and>
   fst (snd (Rinex_Printer_ctor (\<lambda>name. name \<noteq> ''GSDR066m30.13B'')
     sample_time sample_time sample_time ''3.00'' [''GSDR066m30.13N'' \<mapsto> ''abc'']))
     ''GSDR066m30.13B'' = None"
proof -
  define r where "r = Rinex_Printer_ctor (\<lambda>name. name \<noteq> ''GSDR066m30.13B'')
     sample_time sample_time sample_time ''3.00'' [''GSDR066m30.13N'' \<mapsto> ''abc'']"
  have h: "''3.00'' \<noteq> ''3.01''" "''3.00'' \<noteq> ''2.11''" "''3.00'' \<noteq> ''2.10''"
    by simp_all
  have names: "navfilename (fst r) = ''GSDR066m30.13N''"
    "obsfilename (fst r) = ''GSDR066m30.13O''" "sbsfilename (fst r) = ''GSDR066m30.13B''"
    by (simp_all add: r_def Rinex_Printer_ctor_def Let_def case_prod_unfold createFilename_sample)
  from Rinex_Printer_ctor_unknown_version [OF h,
      of "\<lambda>name. name \<noteq> ''GSDR066m30.13B''" "[''GSDR066m30.13N'' \<mapsto> ''abc'']"
        sample_time sample_time sample_time]
  have "snd (snd r) = [''Unknown RINEX version 3.00 (must be 2.11 or 3.01)''] \<and>
     tellp (navFile (fst r)) = 3 \<and>
     fst (snd r) ''GSDR066m30.13N'' = Some ''abc'' \<and>
     fst (snd r) ''GSDR066m30.13O'' = Some [] \<and>
     fst (snd r) ''GSDR066m30.13B'' = None"
    by (simp add: case_prod_unfold r_def [symmetric] names map_index_def)
  with h show ?thesis
    unfolding r_def by simp
qed

text \<open>
  Claim C5 as stated fails: with the flag "4.00", an empty file system and names
  that can be opened, the constructor returns a printer (it reports nothing to its
  caller and does not end the program), and the three output files exist afterwards.
\<close>

theorem Rinex_Printer_ctor_creates_files:
  "Rinex_Printer_ctor (\<lambda>name. True) sample_time sample_time sample_time ''4.00'' Map.empty =
     (\<lparr>navfilename = ''GSDR066m30.13N'', obsfilename = ''GSDR066m30.13O'',
       sbsfilename = ''GSDR066m30.13B'',
       navFile = \<lparr>path = ''GSDR066m30.13N'', failbit = False, tellp = 0\<rparr>,
       obsFile = \<lparr>path = ''GSDR066m30.13O'', failbit = False, tellp = 0\<rparr>,
       sbsFile = \<lparr>path = ''GSDR066m30.13B'', failbit = False, tellp = 0\<rparr>,
       version = None, stringVersion = [], numberTypesObservations = 2\<rparr>,
      [''GSDR066m30.13N'' \<mapsto> [], ''GSDR066m30.13O'' \<mapsto> [], ''GSDR066m30.13B'' \<mapsto> []],
      [''Unknown RINEX version 4.00 (must be 2.11 or 3.01)''])"
  by (simp add: Rinex_Printer_ctor_def createFilename_sample ofstream_open_def compare_def Let_def)

text \<open>
  The destructor. The position of the SBAS stream is read from the observation
  stream (\<^verbatim>\<open>poss = obsFile.tellp()\<close>): the navigation and the observation file are
  removed exactly when the position of their own stream is 0, the SBAS file exactly
  when the position of the observation stream is 0.
\<close>

lemma Rinex_Printer_dtor_files:
  assumes "navfilename p \<noteq> obsfilename p" "navfilename p \<noteq> sbsfilename p"
    "obsfilename p \<noteq> sbsfilename p"
  shows "Rinex_Printer_dtor p fs (navfilename p) =
           (if tellp (navFile p) = 0 then None else fs (navfilename p))"
    and "Rinex_Printer_dtor p fs (obsfilename p) =
           (if tellp (obsFile p) = 0 then None else fs (obsfilename p))"
    and "Rinex_Printer_dtor p fs (sbsfilename p) =
           (if tellp (obsFile p) = 0 then None else fs (sbsfilename p))"
  using assms by (auto simp: Rinex_Printer_dtor_def remove_file_def Let_def)

text \<open>
  A file that held data before the printer was constructed is kept by the destructor
  although nothing was written to it: its stream was positioned at the end of the
  file. Here the navigation file holds "abc"; the other two files are created by the
  constructor and removed by the destructor.
\<close>

lemma Rinex_Printer_dtor_keeps_existing:
  "(case Rinex_Printer_ctor (\<lambda>name. True) sample_time sample_time sample_time ''2.11''
          [''GSDR066m30.13N'' \<mapsto> ''abc''] of
      (p, fs, messages) \<Rightarrow>
        tellp (navFile p) = 3 \<and>
        Rinex_Printer_dtor p fs = [''GSDR066m30.13N'' \<mapsto> ''abc''])"
  by (auto simp: Rinex_Printer_ctor_def createFilename_sample ofstream_open_def compare_def
      Rinex_Printer_dtor_def remove_file_def Let_def)

text \<open>
  Claim C4 at its failing input: a printer constructed on an empty file system,
  one byte written to the SBAS stream and nothing to the other two. Before the
  destructor the SBAS file holds the byte; after it the file does not exist.
\<close>

theorem Rinex_Printer_dtor_sbs_written:
  "(case Rinex_Printer_ctor (\<lambda>name. True) sample_time sample_time sample_time ''2.11''
          Map.empty of
      (p, fs, messages) \<Rightarrow>
        (case ofstream_write (sbsFile p) ''x'' fs of
           (f, fs') \<Rightarrow>
             fs' (sbsfilename p) = Some ''x'' \<and>
             Rinex_Printer_dtor (p\<lparr>sbsFile := f\<rparr>) fs' (sbsfilename p) = None))"
  by (simp add: Rinex_Printer_ctor_def createFilename_sample ofstream_open_def compare_def
      ofstream_write_def map_index_def Rinex_Printer_dtor_def remove_file_def Let_def)

end
